theory Spec2Isabelle
  imports Complex_Main
begin

section \<open>The prioritized-replay DQN policy of SnakeRL\<close>

text \<open>
  A shallow embedding of \<^verbatim>\<open>src/policies/policy_PriorityBaseDQN.py\<close> (class
  \<^verbatim>\<open>PriorBaseDQN\<close>). Python floats are idealised as real numbers: the theorems
  below use the order on them and exact arithmetic only. The collaborators that the class
  calls but does not define (the state encoder, the two Keras networks, the replay buffer,
  numpy's random source, the action list of the base policy) are the fields of an
  environment record; a call that sits inside a \<^verbatim>\<open>try\<close> block returns a sum, so that
  its failure is a branch of the model, and the Python operations of the file itself that
  can raise (division, indexing, \<^verbatim>\<open>list.index\<close>, a maximum over nothing, modulo) carry
  their exception.
\<close>

subsection \<open>Data\<close>

datatype error = ZeroDivisionError | IndexError | ValueError | ExternalError

text \<open>The messages handed to \<^verbatim>\<open>self.log\<close>, with the severity tag of each.\<close>

datatype tag = VALUE | EXCEPTION | DEFAULT_TAG

datatype msg =
    StartingInit
  | InitFinished
  | ScoreWindow real real nat
  | TrainWindow real real nat real
  | SomethingWentWrong
  | Raised error

text \<open>
  The attributes that \<^verbatim>\<open>learn\<close> and \<^verbatim>\<open>act\<close> read and never assign.
  \<^verbatim>\<open>game_duration\<close> and \<^verbatim>\<open>score_scope\<close> are set by the base policy.
\<close>

record hyper =
  gamma :: real
  epsilon_decay :: real
  min_epsilon :: real
  batch_size :: nat
  doubleDQN :: bool
  save_model_round :: int
  game_duration :: int
  score_scope :: int

text \<open>
  The attributes that change during a run. \<^verbatim>\<open>model\<close> and \<^verbatim>\<open>old_model\<close> hold the
  weights of the live and of the target network; \<open>logged\<close> collects what went to
  \<^verbatim>\<open>self.log\<close> and \<open>printed\<close> what went to \<^verbatim>\<open>print\<close>.
\<close>

record ('w, 'm) policy =
  epsilon :: real
  use_softmax_sampling :: bool
  r_sum :: real
  sum_of_loss :: real
  num_of_samples :: nat
  model :: 'w
  old_model :: 'w
  memory :: 'm
  logged :: "(msg \<times> tag) list"
  printed :: "error list"

text \<open>
  \<^verbatim>\<open>self.memory.sample\<close> returns parallel arrays of one length
  (\<^verbatim>\<open>prev, actions, rewards, new, _, sample_weight, idx\<close>); the model keeps them as one
  list of rows, row \<open>i\<close> holding the \<open>i\<close>-th entry of each array.
\<close>

record 's drawn =
  t_prev :: 's
  t_action :: nat
  t_reward :: real
  t_new :: 's
  t_weight :: real
  t_idx :: nat

text \<open>
  The collaborators. \<open>predict w x\<close> is the row of Q-values of the network with weights
  \<open>w\<close> at the encoded state \<open>x\<close>; \<open>fit w xs ys ws\<close> is one epoch of
  \<^verbatim>\<open>model.fit\<close>, giving the new weights and \<^verbatim>\<open>hist.history['loss']\<close> (a
  \<^verbatim>\<open>fit\<close> that raises is taken to leave the weights as they were);
  \<open>softmax_choice r qs e\<close> is
  \<^verbatim>\<open>np.random.choice(ACTIONS, p=softmax(qs / e).squeeze())\<close>, the division by
  the temperature \<open>e\<close> being part of it; \<open>random_rand\<close> is \<^verbatim>\<open>np.random.rand()\<close>
  and \<open>random_choice\<close> is \<^verbatim>\<open>np.random.choice(ACTIONS)\<close>. The type \<open>'r\<close> is the
  state of the random source at the call.
\<close>

record ('g, 's, 'a, 'w, 'm, 'r) env =
  ACTIONS :: "'a list"
  get_state_repr :: "'g \<Rightarrow> 's"
  predict :: "'w \<Rightarrow> 's \<Rightarrow> real list"
  fit :: "'w \<Rightarrow> 's list \<Rightarrow> real list list \<Rightarrow> real list \<Rightarrow> error + ('w \<times> real list)"
  mem_sample :: "'m \<Rightarrow> nat \<Rightarrow> real \<Rightarrow> 'r \<Rightarrow> 's drawn list"
  mem_add :: "'m \<Rightarrow> 's \<Rightarrow> nat \<Rightarrow> real \<Rightarrow> 's \<Rightarrow> nat \<Rightarrow> 'm"
  mem_update_priorities :: "'m \<Rightarrow> nat list \<Rightarrow> real list \<Rightarrow> error + 'm"
  mem_len :: "'m \<Rightarrow> nat"
  softmax_choice :: "'r \<Rightarrow> real list \<Rightarrow> real \<Rightarrow> 'a"
  random_rand :: "'r \<Rightarrow> real"
  random_choice :: "'r \<Rightarrow> 'a"

subsection \<open>Python and numpy operations\<close>

text \<open>\<^verbatim>\<open>np.amax\<close> of one row; numpy raises on a row of width zero.\<close>

fun np_amax :: "real list \<Rightarrow> error + real" where
  "np_amax [] = Inl ValueError"
| "np_amax (q # qs) = Inr (fold max qs q)"

text \<open>
  \<^verbatim>\<open>np.argmax\<close> of one row: a scan from the left that keeps the first position of
  the largest value seen so far.
\<close>

fun argmax_scan :: "real list \<Rightarrow> nat \<Rightarrow> real \<Rightarrow> nat \<Rightarrow> nat" where
  "argmax_scan [] i best bi = bi"
| "argmax_scan (q # qs) i best bi =
     (if best < q then argmax_scan qs (Suc i) q i else argmax_scan qs (Suc i) best bi)"

fun np_argmax :: "real list \<Rightarrow> error + nat" where
  "np_argmax [] = Inl ValueError"
| "np_argmax (q # qs) = Inr (argmax_scan qs 1 q 0)"

text \<open>Indexing with a non-negative index, and \<^verbatim>\<open>list.index\<close>.\<close>

definition py_getitem :: "'x list \<Rightarrow> nat \<Rightarrow> error + 'x" where
  "py_getitem xs i = (if i < length xs then Inr (xs ! i) else Inl IndexError)"

fun py_index :: "'x list \<Rightarrow> 'x \<Rightarrow> error + nat" where
  "py_index [] x = Inl ValueError"
| "py_index (y # ys) x =
     (if y = x then Inr 0
      else (case py_index ys x of Inl e \<Rightarrow> Inl e | Inr i \<Rightarrow> Inr (Suc i)))"

text \<open>A row-wise operation that raises as soon as one row does.\<close>

fun traverse :: "('x \<Rightarrow> error + 'y) \<Rightarrow> 'x list \<Rightarrow> error + 'y list" where
  "traverse f [] = Inr []"
| "traverse f (x # xs) =
     (case f x of
        Inl e \<Rightarrow> Inl e
      | Inr y \<Rightarrow> (case traverse f xs of Inl e \<Rightarrow> Inl e | Inr ys \<Rightarrow> Inr (y # ys)))"

subsection \<open>Initialisation\<close>

definition EPSILON :: real where "EPSILON = 2.0"
definition MIN_EPSILON :: real where "MIN_EPSILON = 0.33"
definition GAMMA :: real where "GAMMA = 0.75"

text \<open>
  \<^verbatim>\<open>cast_string_args\<close>: the two options a run can configure (\<open>None\<close> when the
  key is absent), and the values the method fixes. The result holds the hyperparameters,
  the initial epsilon and the initial \<^verbatim>\<open>use_softmax_sampling\<close>; the base policy turns
  the returned options into attributes. The last two arguments are the base policy's
  \<^verbatim>\<open>game_duration\<close> and \<^verbatim>\<open>score_scope\<close>.
\<close>

definition cast_string_args ::
  "real option \<Rightarrow> real option \<Rightarrow> int \<Rightarrow> int \<Rightarrow> hyper \<times> real \<times> bool" where
  "cast_string_args eps gam gd ss =
     (\<lparr>gamma = (case gam of Some g \<Rightarrow> g | None \<Rightarrow> GAMMA),
       epsilon_decay = 0.90,
       min_epsilon = MIN_EPSILON,
       batch_size = 96,
       doubleDQN = False,
       save_model_round = 250,
       game_duration = gd,
       score_scope = ss\<rparr>,
      (case eps of Some e \<Rightarrow> e | None \<Rightarrow> EPSILON),
      True)"

definition emit :: "msg \<Rightarrow> tag \<Rightarrow> ('w, 'm) policy \<Rightarrow> ('w, 'm) policy" where
  "emit m t s = s\<lparr>logged := logged s @ [(m, t)]\<rparr>"

text \<open>\<^verbatim>\<open>_save_model\<close>: the target network takes the live network's weights.\<close>

definition save_model :: "('w, 'm) policy \<Rightarrow> ('w, 'm) policy" where
  "save_model s = s\<lparr>old_model := model s\<rparr>"

text \<open>
  \<^verbatim>\<open>init_run\<close>, from the configured epsilon and \<^verbatim>\<open>use_softmax_sampling\<close>,
  the weights \<open>w0\<close> of the freshly built network, the weights \<open>w1\<close> that
  \<^verbatim>\<open>clone_model\<close> gives the target network before \<^verbatim>\<open>_save_model\<close> overwrites
  them, and the empty replay buffer.
\<close>

definition init_run :: "real \<Rightarrow> bool \<Rightarrow> 'w \<Rightarrow> 'w \<Rightarrow> 'm \<Rightarrow> ('w, 'm) policy" where
  "init_run eps softmax w0 w1 m0 =
     emit InitFinished DEFAULT_TAG
       (save_model
         (emit StartingInit DEFAULT_TAG
           \<lparr>epsilon = eps, use_softmax_sampling = softmax, r_sum = 0, sum_of_loss = 0,
            num_of_samples = 0, model = w0, old_model = w1, memory = m0,
            logged = [], printed = []\<rparr>))"

subsection \<open>learn\<close>

text \<open>
  The body of the first \<^verbatim>\<open>try\<close> block (lines 98 to 109). The division of line 103
  is the only statement that raises, and it comes before any assignment of its branch.
  Whenever the sample count is zero the loss sum is the integer zero too (both are
  assigned together), so that Python raises \<^verbatim>\<open>ZeroDivisionError\<close> there.
\<close>

definition window_stats ::
  "hyper \<Rightarrow> ('g, 's, 'a, 'w, 'm, 'r) env \<Rightarrow> int \<Rightarrow> real \<Rightarrow> ('w, 'm) policy
     \<Rightarrow> error + ('w, 'm) policy" where
  "window_stats c env round' reward s =
     (if round' mod 100 = 0 then
        (if round' > game_duration c - score_scope c then
           Inr ((emit (ScoreWindow (r_sum s) (epsilon s) (mem_len env (memory s))) VALUE s)
                  \<lparr>r_sum := 0\<rparr>)
         else if num_of_samples s = 0 then Inl ZeroDivisionError
         else
           (let total_loss = sum_of_loss s / real (num_of_samples s);
                s1 = s\<lparr>num_of_samples := 0, sum_of_loss := 0\<rparr>
            in Inr ((emit (TrainWindow (r_sum s1) (epsilon s1) (mem_len env (memory s1))
                            total_loss) VALUE s1)
                      \<lparr>r_sum := 0\<rparr>)))
      else Inr (s\<lparr>r_sum := r_sum s + reward\<rparr>))"

text \<open>The block with its handler (lines 97 to 112).\<close>

definition log_window ::
  "hyper \<Rightarrow> ('g, 's, 'a, 'w, 'm, 'r) env \<Rightarrow> int \<Rightarrow> real \<Rightarrow> ('w, 'm) policy
     \<Rightarrow> ('w, 'm) policy" where
  "log_window c env round' reward s =
     (case window_stats c env round' reward s of
        Inr s' \<Rightarrow> s'
      | Inl e \<Rightarrow> emit (Raised e) EXCEPTION (emit SomethingWentWrong EXCEPTION s))"

text \<open>The TD target of one sampled row (lines 116 to 120).\<close>

definition td_target_row ::
  "hyper \<Rightarrow> ('g, 's, 'a, 'w, 'm, 'r) env \<Rightarrow> ('w, 'm) policy \<Rightarrow> 's drawn \<Rightarrow> error + real" where
  "td_target_row c env s t =
     (if doubleDQN c then
        (case np_argmax (predict env (model s) (t_new t)) of
           Inl e \<Rightarrow> Inl e
         | Inr j \<Rightarrow>
             (case py_getitem (predict env (old_model s) (t_new t)) j of
                Inl e \<Rightarrow> Inl e
              | Inr q \<Rightarrow> Inr (t_reward t + gamma c * q)))
      else
        (case np_amax (predict env (old_model s) (t_new t)) of
           Inl e \<Rightarrow> Inl e
         | Inr m \<Rightarrow> Inr (t_reward t + gamma c * m)))"

definition td_target ::
  "hyper \<Rightarrow> ('g, 's, 'a, 'w, 'm, 'r) env \<Rightarrow> ('w, 'm) policy \<Rightarrow> 's drawn list
     \<Rightarrow> error + real list" where
  "td_target c env s batch = traverse (td_target_row c env s) batch"

text \<open>
  Lines 121 and 124: the live network's prediction for the previous states, with the entry
  of the taken action of every row overwritten. numpy checks every index before it writes.
\<close>

definition assign_row :: "real list \<times> nat \<times> real \<Rightarrow> error + real list" where
  "assign_row = (\<lambda>(qs, a, v). if a < length qs then Inr (qs[a := v]) else Inl IndexError)"

definition target_vectors ::
  "('g, 's, 'a, 'w, 'm, 'r) env \<Rightarrow> ('w, 'm) policy \<Rightarrow> 's drawn list \<Rightarrow> real list
     \<Rightarrow> error + real list list" where
  "target_vectors env s batch target =
     (let target_f = map (\<lambda>t. predict env (model s) (t_prev t)) batch
      in traverse assign_row (zip target_f (zip (map t_action batch) target)))"

text \<open>
  The absolute error of one row, summed over the actions (line 130). Both rows come from
  the live network, whose output width is fixed.
\<close>

definition mae_row :: "real list \<Rightarrow> real list \<Rightarrow> real" where
  "mae_row t p = sum_list (map2 (\<lambda>x y. \<bar>x - y\<bar>) t p)"

text \<open>The second \<^verbatim>\<open>try\<close> block with its handler (lines 121 to 134).\<close>

definition train ::
  "('g, 's, 'a, 'w, 'm, 'r) env \<Rightarrow> 's drawn list \<Rightarrow> real list \<Rightarrow> ('w, 'm) policy
     \<Rightarrow> ('w, 'm) policy" where
  "train env batch target s =
     (case target_vectors env s batch target of
        Inl e \<Rightarrow> s\<lparr>printed := printed s @ [e]\<rparr>
      | Inr target_f \<Rightarrow>
          (case fit env (model s) (map t_prev batch) target_f (map t_weight batch) of
             Inl e \<Rightarrow> s\<lparr>printed := printed s @ [e]\<rparr>
           | Inr (w, loss) \<Rightarrow>
               (let s1 = s\<lparr>model := w,
                           sum_of_loss := sum_of_loss s + sum_list loss,
                           num_of_samples := num_of_samples s + length loss\<rparr>;
                    mae = map2 mae_row target_f (map (\<lambda>t. predict env w (t_prev t)) batch)
                in (case mem_update_priorities env (memory s1) (map t_idx batch)
                           (map (\<lambda>m. m + 1 / 10 ^ 6) mae) of
                      Inl e \<Rightarrow> s1\<lparr>printed := printed s1 @ [e]\<rparr>
                    | Inr m \<Rightarrow> s1\<lparr>memory := m\<rparr>))))"

text \<open>Line 139: the decayed value of an epsilon, and the assignment.\<close>

definition decayed :: "hyper \<Rightarrow> real \<Rightarrow> real" where
  "decayed c e = max (e * epsilon_decay c) (min_epsilon c)"

definition decay :: "hyper \<Rightarrow> ('w, 'm) policy \<Rightarrow> ('w, 'm) policy" where
  "decay c s = s\<lparr>epsilon := decayed c (epsilon s)\<rparr>"

text \<open>
  \<^verbatim>\<open>learn\<close>. Its arguments \<^verbatim>\<open>prev_state\<close>, \<^verbatim>\<open>prev_action\<close>, \<^verbatim>\<open>new_state\<close>
  and \<^verbatim>\<open>too_slow\<close> are never read and are left out; \<open>rnd\<close> is the random source
  that the buffer samples with. An exception outside the two \<^verbatim>\<open>try\<close> blocks leaves
  the method, and the run: the result is then \<open>Inl\<close>.
\<close>

definition learn ::
  "hyper \<Rightarrow> ('g, 's, 'a, 'w, 'm, 'r) env \<Rightarrow> int \<Rightarrow> real \<Rightarrow> 'r \<Rightarrow> ('w, 'm) policy
     \<Rightarrow> error + ('w, 'm) policy" where
  "learn c env round' reward rnd s =
     (let s1 = log_window c env round' reward s;
          batch = mem_sample env (memory s1) (batch_size c) 0.6 rnd
      in (case td_target c env s1 batch of
            Inl e \<Rightarrow> Inl e
          | Inr target \<Rightarrow>
              (let s2 = train env batch target s1
               in if save_model_round c = 0 then Inl ZeroDivisionError
                  else
                    (let s3 = (if round' mod save_model_round c = 0 \<and> round' > 0
                               then save_model s2 else s2)
                     in Inr (if round' mod 200 = 0 \<and> round' > 0 \<and> epsilon s3 > 0
                             then decay c s3 else s3)))))"

subsection \<open>act\<close>

text \<open>Lines 142 to 145.\<close>

definition cancel_exploration :: "hyper \<Rightarrow> int \<Rightarrow> ('w, 'm) policy \<Rightarrow> ('w, 'm) policy" where
  "cancel_exploration c round' s =
     (if round' > game_duration c - score_scope c
      then s\<lparr>use_softmax_sampling := False, epsilon := 0\<rparr> else s)"

text \<open>Lines 149 to 151; \<open>None\<close> is Python's \<^verbatim>\<open>None\<close>.\<close>

definition remember ::
  "('g, 's, 'a, 'w, 'm, 'r) env \<Rightarrow> 'g option \<Rightarrow> 'a \<Rightarrow> real \<Rightarrow> 's \<Rightarrow> ('w, 'm) policy
     \<Rightarrow> error + ('w, 'm) policy" where
  "remember env prev_state prev_action reward new_state_repr s =
     (case prev_state of
        None \<Rightarrow> Inr s
      | Some p \<Rightarrow>
          (case py_index (ACTIONS env) prev_action of
             Inl e \<Rightarrow> Inl e
           | Inr a \<Rightarrow>
               Inr (s\<lparr>memory :=
                        mem_add env (memory s) (get_state_repr env p) a reward new_state_repr 0\<rparr>)))"

text \<open>
  \<^verbatim>\<open>act\<close>; \<^verbatim>\<open>too_slow\<close> is never read and is left out. The result is the action
  with the policy after the call.
\<close>

definition act ::
  "hyper \<Rightarrow> ('g, 's, 'a, 'w, 'm, 'r) env \<Rightarrow> int \<Rightarrow> 'g option \<Rightarrow> 'a \<Rightarrow> real \<Rightarrow> 'g \<Rightarrow> 'r
     \<Rightarrow> ('w, 'm) policy \<Rightarrow> error + 'a \<times> ('w, 'm) policy" where
  "act c env round' prev_state prev_action reward new_state rnd s =
     (let s1 = cancel_exploration c round' s;
          new_state_repr = get_state_repr env new_state
      in (case remember env prev_state prev_action reward new_state_repr s1 of
            Inl e \<Rightarrow> Inl e
          | Inr s2 \<Rightarrow>
              if use_softmax_sampling s2 then
                Inr (softmax_choice env rnd (predict env (model s2) new_state_repr) (epsilon s2),
                     s2)
              else if random_rand env rnd < epsilon s2 then Inr (random_choice env rnd, s2)
              else
                (case np_argmax (predict env (model s2) new_state_repr) of
                   Inl e \<Rightarrow> Inl e
                 | Inr j \<Rightarrow>
                     (case py_getitem (ACTIONS env) j of
                        Inl e \<Rightarrow> Inl e
                      | Inr a \<Rightarrow> Inr (a, s2)))))"

subsection \<open>Runs\<close>

text \<open>
  A run is the sequence of calls the game engine makes, each with the inputs the policy
  does not control. It ends at the first call that raises.
\<close>

datatype ('g, 'a, 'r) call =
    Learn int real 'r
  | Act int "'g option" 'a real 'g 'r

fun run ::
  "hyper \<Rightarrow> ('g, 's, 'a, 'w, 'm, 'r) env \<Rightarrow> ('g, 'a, 'r) call list \<Rightarrow> ('w, 'm) policy
     \<Rightarrow> error + ('w, 'm) policy" where
  "run c env [] s = Inr s"
| "run c env (Learn round' reward rnd # cs) s =
     (case learn c env round' reward rnd s of
        Inl e \<Rightarrow> Inl e
      | Inr s' \<Rightarrow> run c env cs s')"
| "run c env (Act round' prev_state prev_action reward new_state rnd # cs) s =
     (case act c env round' prev_state prev_action reward new_state rnd s of
        Inl e \<Rightarrow> Inl e
      | Inr (a, s') \<Rightarrow> run c env cs s')"

text \<open>
  An \<^verbatim>\<open>act\<close> call inside the final \<^verbatim>\<open>score_scope\<close> window ("money-time"), and a
  \<^verbatim>\<open>learn\<close> call at a round where line 138 can decay epsilon.
\<close>

fun money_time :: "hyper \<Rightarrow> ('g, 'a, 'r) call \<Rightarrow> bool" where
  "money_time c (Act round' prev_state prev_action reward new_state rnd) =
     (round' > game_duration c - score_scope c)"
| "money_time c (Learn round' reward rnd) = False"

fun decay_event :: "('g, 'a, 'r) call \<Rightarrow> bool" where
  "decay_event (Learn round' reward rnd) = (round' mod 200 = 0 \<and> round' > 0)"
| "decay_event (Act round' prev_state prev_action reward new_state rnd) = False"

subsection \<open>A small concrete instance\<close>

text \<open>
  Three actions, states and raw states that are numbers, a network whose weights are one
  number, a buffer that is the list of its rows, and the default hyperparameters with a
  game of 5000 rounds whose last 1000 count towards the score.
\<close>

definition demo_env :: "(nat, nat, string, real, nat drawn list, nat) env" where
  "demo_env =
     \<lparr>ACTIONS = [''L'', ''R'', ''F''],
      get_state_repr = (\<lambda>g. g),
      predict = (\<lambda>w x. [w, real x, 1]),
      fit = (\<lambda>w xs ys ws. Inr (w + 1, [1 / 2])),
      mem_sample = (\<lambda>m n beta r. take n m),
      mem_add = (\<lambda>m p a rew n t.
         m @ [\<lparr>t_prev = p, t_action = a, t_reward = rew, t_new = n, t_weight = 1,
               t_idx = length m\<rparr>]),
      mem_update_priorities = (\<lambda>m is ps. Inr m),
      mem_len = length,
      softmax_choice = (\<lambda>r qs e. ''F''),
      random_rand = (\<lambda>r. 1 / 2),
      random_choice = (\<lambda>r. ''L'')\<rparr>"

definition demo_hyper :: hyper where
  "demo_hyper = fst (cast_string_args None None 5000 1000)"

definition demo_policy :: "(real, nat drawn list) policy" where
  "demo_policy =
     init_run (fst (snd (cast_string_args None None 5000 1000)))
       (snd (snd (cast_string_args None None 5000 1000))) 0 1 []"

text \<open>
  The instance after some training, with one row in the buffer: the live weights have moved
  away from the target weights.
\<close>

definition demo_trained :: "(real, nat drawn list) policy" where
  "demo_trained =
     demo_policy\<lparr>model := 5,
       memory := [\<lparr>t_prev = 3, t_action = 2, t_reward = 1, t_new = 2, t_weight = 1, t_idx = 0\<rparr>]\<rparr>"

text \<open>The instance with a network whose \<^verbatim>\<open>fit\<close> always raises.\<close>

definition demo_env_failing_fit :: "(nat, nat, string, real, nat drawn list, nat) env" where
  "demo_env_failing_fit = demo_env\<lparr>fit := (\<lambda>w xs ys ws. Inl ExternalError)\<rparr>"

text \<open>
  The instance with a network whose \<^verbatim>\<open>fit\<close> depends on the target vectors it is
  given: it adds their entries to the weights.
\<close>

definition demo_env_sensitive_fit :: "(nat, nat, string, real, nat drawn list, nat) env" where
  "demo_env_sensitive_fit =
     demo_env\<lparr>fit := (\<lambda>w xs ys ws. Inr (w + sum_list (map sum_list ys), [1 / 2]))\<rparr>"

section \<open>Properties\<close>

subsection \<open>What each block leaves unchanged\<close>

lemma run_append:
  "run c env (cs @ ds) s = (case run c env cs s of Inl e \<Rightarrow> Inl e | Inr s' \<Rightarrow> run c env ds s')"
  by (induction c env cs s rule: run.induct) (auto split: sum.splits)

lemma log_window_frame:
  "epsilon (log_window c env r rew s) = epsilon s"
  "use_softmax_sampling (log_window c env r rew s) = use_softmax_sampling s"
  "model (log_window c env r rew s) = model s"
  "old_model (log_window c env r rew s) = old_model s"
  "memory (log_window c env r rew s) = memory s"
  "printed (log_window c env r rew s) = printed s"
  by (simp_all add: log_window_def window_stats_def emit_def Let_def)

lemma train_frame:
  "epsilon (train env b t s) = epsilon s"
  "use_softmax_sampling (train env b t s) = use_softmax_sampling s"
  "old_model (train env b t s) = old_model s"
  "r_sum (train env b t s) = r_sum s"
  "logged (train env b t s) = logged s"
  by (simp_all add: train_def Let_def split: sum.splits prod.splits)

lemma learn_epsilon:
  "learn c env r rew rnd s = Inr s' \<Longrightarrow>
   epsilon s' = (if r mod 200 = 0 \<and> r > 0 \<and> epsilon s > 0
                 then decayed c (epsilon s) else epsilon s)"
  by (auto simp: learn_def Let_def decay_def save_model_def train_frame log_window_frame
      split: sum.splits if_splits)

lemma learn_softmax:
  "learn c env r rew rnd s = Inr s' \<Longrightarrow> use_softmax_sampling s' = use_softmax_sampling s"
  by (auto simp: learn_def Let_def decay_def save_model_def train_frame log_window_frame
      split: sum.splits if_splits)

lemma learn_old_model:
  "learn c env r rew rnd s = Inr s' \<Longrightarrow>
   old_model s' = (if r mod save_model_round c = 0 \<and> r > 0 then model s' else old_model s)"
  by (auto simp: learn_def Let_def decay_def save_model_def train_frame log_window_frame
      split: sum.splits if_splits)

lemma remember_frame:
  "remember env p a rew n s = Inr s' \<Longrightarrow>
     epsilon s' = epsilon s \<and> use_softmax_sampling s' = use_softmax_sampling s \<and>
     model s' = model s \<and> old_model s' = old_model s"
  by (auto simp: remember_def split: option.splits sum.splits)

lemma act_state:
  "act c env r p a rew n rnd s = Inr (x, s') \<Longrightarrow>
     epsilon s' = epsilon (cancel_exploration c r s) \<and>
     use_softmax_sampling s' = use_softmax_sampling (cancel_exploration c r s) \<and>
     model s' = model s \<and> old_model s' = old_model s"
  by (auto simp: act_def Let_def cancel_exploration_def dest!: remember_frame split: sum.splits if_splits)

subsection \<open>Epsilon along a run\<close>

lemma cancel_exploration_simps:
  "epsilon (cancel_exploration c r s) = (if r > game_duration c - score_scope c then 0 else epsilon s)"
  "use_softmax_sampling (cancel_exploration c r s) =
     (if r > game_duration c - score_scope c then False else use_softmax_sampling s)"
  by (simp_all add: cancel_exploration_def)

lemma run_cases:
  assumes "run c env (x # cs) s = Inr s'"
  obtains s1 where "run c env [x] s = Inr s1" "run c env cs s1 = Inr s'"
  using assms by (cases x) (auto split: sum.splits)

lemma step_epsilon:
  assumes "run c env [x] s = Inr s1"
  shows "epsilon s1 =
     (if money_time c x then 0
      else if decay_event x \<and> epsilon s > 0 then decayed c (epsilon s)
      else epsilon s)"
    and "use_softmax_sampling s1 = (if money_time c x then False else use_softmax_sampling s)"
proof -
  show "epsilon s1 =
     (if money_time c x then 0
      else if decay_event x \<and> epsilon s > 0 then decayed c (epsilon s)
      else epsilon s)"
  proof (cases x)
    case (Learn r rew rnd)
    with assms have "learn c env r rew rnd s = Inr s1" by (simp split: sum.splits)
    from learn_epsilon[OF this] Learn show ?thesis by simp
  next
    case (Act r p a rew n rnd)
    with assms obtain y where "act c env r p a rew n rnd s = Inr (y, s1)"
      by (auto split: sum.splits)
    from act_state[OF this] Act show ?thesis by (simp add: cancel_exploration_simps)
  qed
  show "use_softmax_sampling s1 = (if money_time c x then False else use_softmax_sampling s)"
  proof (cases x)
    case (Learn r rew rnd)
    with assms have "learn c env r rew rnd s = Inr s1" by (simp split: sum.splits)
    from learn_softmax[OF this] Learn show ?thesis by simp
  next
    case (Act r p a rew n rnd)
    with assms obtain y where "act c env r p a rew n rnd s = Inr (y, s1)"
      by (auto split: sum.splits)
    from act_state[OF this] Act show ?thesis by (simp add: cancel_exploration_simps)
  qed
qed

lemma decayed_ge: "min_epsilon c \<le> decayed c e"
  by (simp add: decayed_def)

lemma decayed_le:
  assumes "0 < e" "epsilon_decay c \<le> 1" "min_epsilon c \<le> e"
  shows "decayed c e \<le> e"
proof -
  from assms(1,2) have "e * epsilon_decay c \<le> e" by (simp add: mult_left_le)
  with assms(3) show ?thesis by (simp add: decayed_def)
qed

lemma run_epsilon_mono:
  assumes "0 \<le> min_epsilon c" "epsilon_decay c \<le> 1"
  shows "run c env cs s = Inr s' \<Longrightarrow> epsilon s = 0 \<or> min_epsilon c \<le> epsilon s \<Longrightarrow>
         epsilon s' \<le> epsilon s \<and> (epsilon s' = 0 \<or> min_epsilon c \<le> epsilon s')"
proof (induction cs arbitrary: s)
  case Nil
  then show ?case by simp
next
  case (Cons x cs)
  from Cons.prems(1) obtain s1 where s1: "run c env [x] s = Inr s1" and rest: "run c env cs s1 = Inr s'"
    by (rule run_cases)
  have e1: "epsilon s1 \<le> epsilon s \<and> (epsilon s1 = 0 \<or> min_epsilon c \<le> epsilon s1)"
  proof (cases rule: case_split[of "0 < epsilon s"])
    case True
    with Cons.prems(2) have "min_epsilon c \<le> epsilon s" by auto
    from decayed_le[OF True assms(2) this] decayed_ge[of c "epsilon s"] True assms(1) Cons.prems(2)
    show ?thesis unfolding step_epsilon(1)[OF s1] by auto
  next
    case False
    with Cons.prems(2) assms(1) have "epsilon s = 0" by auto
    then show ?thesis unfolding step_epsilon(1)[OF s1] by auto
  qed
  with Cons.IH[OF rest] show ?case by auto
qed

lemma run_epsilon_floor:
  "run c env cs s = Inr s' \<Longrightarrow> \<not> list_ex (money_time c) cs \<Longrightarrow> min_epsilon c \<le> epsilon s \<Longrightarrow>
     min_epsilon c \<le> epsilon s'"
proof (induction cs arbitrary: s)
  case Nil
  then show ?case by simp
next
  case (Cons x cs)
  from Cons.prems(1) obtain s1 where s1: "run c env [x] s = Inr s1" and rest: "run c env cs s1 = Inr s'"
    by (rule run_cases)
  have "min_epsilon c \<le> epsilon s1"
    using Cons.prems(2,3) decayed_ge[of c "epsilon s"]
    unfolding step_epsilon(1)[OF s1] by auto
  with Cons.IH[OF rest] Cons.prems(2) show ?case by simp
qed

lemma run_zeroed:
  "run c env cs s = Inr s' \<Longrightarrow> epsilon s = 0 \<Longrightarrow> \<not> use_softmax_sampling s \<Longrightarrow>
     epsilon s' = 0 \<and> \<not> use_softmax_sampling s'"
proof (induction cs arbitrary: s)
  case Nil
  then show ?case by simp
next
  case (Cons x cs)
  from Cons.prems(1) obtain s1 where s1: "run c env [x] s = Inr s1" and rest: "run c env cs s1 = Inr s'"
    by (rule run_cases)
  have "epsilon s1 = 0" "\<not> use_softmax_sampling s1"
    using Cons.prems(2,3) unfolding step_epsilon[OF s1] by auto
  with Cons.IH[OF rest] show ?case by simp
qed

lemma run_money_time:
  "run c env cs s = Inr s' \<Longrightarrow> list_ex (money_time c) cs \<Longrightarrow>
     epsilon s' = 0 \<and> \<not> use_softmax_sampling s'"
proof (induction cs arbitrary: s)
  case Nil
  then show ?case by simp
next
  case (Cons x cs)
  from Cons.prems(1) obtain s1 where s1: "run c env [x] s = Inr s1" and rest: "run c env cs s1 = Inr s'"
    by (rule run_cases)
  show ?case
  proof (cases rule: case_split[of "money_time c x"])
    case True
    then have "epsilon s1 = 0" "\<not> use_softmax_sampling s1"
      unfolding step_epsilon[OF s1] by auto
    with run_zeroed[OF rest] show ?thesis by simp
  next
    case False
    with Cons.prems(2) have "list_ex (money_time c) cs" by simp
    with Cons.IH[OF rest] show ?thesis by simp
  qed
qed

lemma run_temperature:
  "run c env cs s = Inr s' \<Longrightarrow> use_softmax_sampling s' \<Longrightarrow>
     use_softmax_sampling s \<and> min (epsilon s) (min_epsilon c) \<le> epsilon s'"
proof (induction cs arbitrary: s)
  case Nil
  then show ?case by simp
next
  case (Cons x cs)
  from Cons.prems(1) obtain s1 where s1: "run c env [x] s = Inr s1" and rest: "run c env cs s1 = Inr s'"
    by (rule run_cases)
  from Cons.IH[OF rest Cons.prems(2)]
  have a: "use_softmax_sampling s1" and b: "min (epsilon s1) (min_epsilon c) \<le> epsilon s'" by auto
  from a have nm: "\<not> money_time c x" and sm: "use_softmax_sampling s"
    unfolding step_epsilon(2)[OF s1] by (auto split: if_splits)
  have "epsilon s1 = epsilon s \<or> min_epsilon c \<le> epsilon s1"
    using nm decayed_ge[of c "epsilon s"] unfolding step_epsilon(1)[OF s1] by auto
  then have "min (epsilon s) (min_epsilon c) \<le> min (epsilon s1) (min_epsilon c)"
    by auto
  with b sm show ?case by simp
qed

lemma run_decay_count:
  assumes "0 < min_epsilon c"
  shows "run c env cs s = Inr s' \<Longrightarrow> \<not> list_ex (money_time c) cs \<Longrightarrow> 0 < epsilon s \<Longrightarrow>
     epsilon s' = (decayed c ^^ length (filter decay_event cs)) (epsilon s)"
proof (induction cs arbitrary: s)
  case Nil
  then show ?case by simp
next
  case (Cons x cs)
  from Cons.prems(1) obtain s1 where s1: "run c env [x] s = Inr s1" and rest: "run c env cs s1 = Inr s'"
    by (rule run_cases)
  from Cons.prems(2) have nm: "\<not> money_time c x" and nms: "\<not> list_ex (money_time c) cs" by auto
  have e1: "epsilon s1 = (if decay_event x then decayed c (epsilon s) else epsilon s)"
    using nm Cons.prems(3) unfolding step_epsilon(1)[OF s1] by simp
  then have pos: "0 < epsilon s1"
    using assms Cons.prems(3) decayed_ge[of c "epsilon s"] by (auto split: if_splits)
  have "(decayed c ^^ n) (decayed c e) = (decayed c ^^ Suc n) e" for n e
    by (simp add: funpow_swap1)
  then show ?case
    unfolding Cons.IH[OF rest nms pos] e1 by simp
qed

lemma pow_ge: "k \<le> 10 \<Longrightarrow> (0.33::real) \<le> 2 * 0.9 ^ k"
proof -
  assume "k \<le> 10"
  then have "(0.9::real) ^ 10 \<le> 0.9 ^ k" by (intro power_decreasing) simp_all
  moreover have "(0.33::real) \<le> 2 * 0.9 ^ 10" by (simp add: power_divide)
  ultimately show ?thesis by linarith
qed

lemma decays:
  assumes "epsilon_decay c = 0.9" "min_epsilon c = 0.33"
  shows "k \<le> 10 \<Longrightarrow> (decayed c ^^ k) 2 = 2 * 0.9 ^ k"
proof (induction k)
  case 0
  then show ?case by simp
next
  case (Suc k)
  then have ih: "(decayed c ^^ k) 2 = 2 * 0.9 ^ k" by simp
  have "(0.33::real) \<le> 2 * 0.9 ^ Suc k" using Suc.prems by (rule pow_ge)
  then have "decayed c (2 * 0.9 ^ k) = 2 * 0.9 ^ Suc k"
    by (simp add: decayed_def assms)
  then show ?case by (simp add: ih)
qed

subsection \<open>Maximum and first maximiser of a row\<close>

lemma np_amax_Max: "np_amax qs = Inr m \<longleftrightarrow> qs \<noteq> [] \<and> m = Max (set qs)"
proof (cases qs)
  case Nil
  then show ?thesis by simp
next
  case (Cons q rest)
  have "Max (set (q # rest)) = fold max rest q" by (rule Max.set_eq_fold)
  with Cons show ?thesis by auto
qed

lemma np_amax_total: "qs \<noteq> [] \<Longrightarrow> \<exists>m. np_amax qs = Inr m"
  by (cases qs) auto

lemma argmax_scan_first:
  "argmax_scan qs i best bi = j \<Longrightarrow>
     (j = bi \<and> (\<forall>q\<in>set qs. q \<le> best)) \<or>
     (i \<le> j \<and> j < i + length qs \<and> best < qs ! (j - i) \<and> (\<forall>q\<in>set qs. q \<le> qs ! (j - i)) \<and>
      (\<forall>k<j - i. qs ! k < qs ! (j - i)))"
proof (induction qs arbitrary: i best bi)
  case Nil
  then show ?case by simp
next
  case (Cons q qs)
  show ?case
  proof (cases rule: case_split[of "best < q"])
    case True
    with Cons.prems have "argmax_scan qs (Suc i) q i = j" by simp
    from Cons.IH[OF this] show ?thesis
    proof
      assume "j = i \<and> (\<forall>x\<in>set qs. x \<le> q)"
      with True show ?thesis by auto
    next
      assume a: "Suc i \<le> j \<and> j < Suc i + length qs \<and> q < qs ! (j - Suc i) \<and>
        (\<forall>x\<in>set qs. x \<le> qs ! (j - Suc i)) \<and> (\<forall>k<j - Suc i. qs ! k < qs ! (j - Suc i))"
      then obtain d where d: "j - i = Suc d" "j - Suc i = d" by (cases rule: nat.exhaust[of "j - i"]) auto
      have "\<forall>k<Suc d. (q # qs) ! k < qs ! d"
        using a d by (auto simp: nth_Cons split: nat.splits)
      with a d True show ?thesis by auto
    qed
  next
    case False
    with Cons.prems have "argmax_scan qs (Suc i) best bi = j" by simp
    from Cons.IH[OF this] show ?thesis
    proof
      assume "j = bi \<and> (\<forall>x\<in>set qs. x \<le> best)"
      with False show ?thesis by auto
    next
      assume a: "Suc i \<le> j \<and> j < Suc i + length qs \<and> best < qs ! (j - Suc i) \<and>
        (\<forall>x\<in>set qs. x \<le> qs ! (j - Suc i)) \<and> (\<forall>k<j - Suc i. qs ! k < qs ! (j - Suc i))"
      then obtain d where d: "j - i = Suc d" "j - Suc i = d" by (cases rule: nat.exhaust[of "j - i"]) auto
      have "\<forall>k<Suc d. (q # qs) ! k < qs ! d"
        using a d False by (auto simp: nth_Cons split: nat.splits)
      with a d False show ?thesis by auto
    qed
  qed
qed

lemma np_argmax_first:
  assumes "np_argmax qs = Inr j"
  shows "j < length qs \<and> qs ! j = Max (set qs) \<and> (\<forall>k<j. qs ! k < qs ! j)"
proof (cases qs)
  case Nil
  with assms show ?thesis by simp
next
  case (Cons q rest)
  with assms have "argmax_scan rest 1 q 0 = j" by simp
  from argmax_scan_first[OF this]
  have "j < length qs \<and> (\<forall>x\<in>set qs. x \<le> qs ! j) \<and> (\<forall>k<j. qs ! k < qs ! j)"
  proof
    assume "j = 0 \<and> (\<forall>x\<in>set rest. x \<le> q)"
    with Cons show ?thesis by auto
  next
    assume a: "1 \<le> j \<and> j < 1 + length rest \<and> q < rest ! (j - 1) \<and>
      (\<forall>x\<in>set rest. x \<le> rest ! (j - 1)) \<and> (\<forall>k<j - 1. rest ! k < rest ! (j - 1))"
    then obtain d where d: "j = Suc d" by (cases j) auto
    have "\<forall>k<Suc d. (q # rest) ! k < rest ! d"
      using a d by (auto simp: nth_Cons split: nat.splits)
    with a d Cons show ?thesis by auto
  qed
  moreover from this have "qs ! j = Max (set qs)"
    by (intro Max_eqI[symmetric]) auto
  ultimately show ?thesis by simp
qed

lemma np_argmax_total: "qs \<noteq> [] \<Longrightarrow> \<exists>j. np_argmax qs = Inr j"
  by (cases qs) auto

lemma traverse_Inr:
  "traverse f xs = Inr ys \<Longrightarrow> length ys = length xs \<and> (\<forall>i<length xs. f (xs ! i) = Inr (ys ! i))"
proof (induction xs arbitrary: ys)
  case Nil
  then show ?case by simp
next
  case (Cons x xs)
  from Cons.prems obtain y zs where y: "f x = Inr y" and zs: "traverse f xs = Inr zs" and ys: "ys = y # zs"
    by (auto split: sum.splits)
  from Cons.IH[OF zs] y ys show ?case by (auto simp: nth_Cons split: nat.splits)
qed

lemma traverse_total:
  "(\<And>x. x \<in> set xs \<Longrightarrow> \<exists>y. f x = Inr y) \<Longrightarrow> \<exists>ys. traverse f xs = Inr ys"
proof (induction xs)
  case Nil
  then show ?case by simp
next
  case (Cons x xs)
  then obtain y where "f x = Inr y" by force
  moreover from Cons obtain ys where "traverse f xs = Inr ys" by force
  ultimately show ?case by simp
qed

subsection \<open>Unfolding the concrete instance\<close>

lemmas demo_defs = demo_hyper_def demo_env_def demo_policy_def cast_string_args_def init_run_def
  emit_def save_model_def EPSILON_def MIN_EPSILON_def GAMMA_def
lemmas code_defs = act_def learn_def Let_def cancel_exploration_def remember_def log_window_def
  window_stats_def td_target_def td_target_row_def train_def target_vectors_def assign_row_def
  mae_row_def decay_def decayed_def py_getitem_def

subsection \<open>When the calls return\<close>

text \<open>
  \<^verbatim>\<open>learn\<close> returns whenever \<^verbatim>\<open>save_model_round\<close> is not zero and the two networks
  have one output width, which is not zero. \<^verbatim>\<open>act\<close> returns whenever the previous
  action, if there is a previous state, is one of \<^verbatim>\<open>ACTIONS\<close> and the network has
  one output for each of them.
\<close>

lemma py_index_total: "x \<in> set xs \<Longrightarrow> \<exists>i. py_index xs x = Inr i"
  by (induction xs) auto

lemma td_target_row_total:
  assumes "predict env (model s) (t_new t) \<noteq> []"
    and "length (predict env (old_model s) (t_new t)) = length (predict env (model s) (t_new t))"
  shows "\<exists>v. td_target_row c env s t = Inr v"
proof (cases rule: case_split[of "doubleDQN c"])
  case True
  from np_argmax_total[OF assms(1)] obtain j
    where j: "np_argmax (predict env (model s) (t_new t)) = Inr j" by blast
  from np_argmax_first[OF j] assms(2) have "j < length (predict env (old_model s) (t_new t))"
    by simp
  with j True show ?thesis by (simp add: td_target_row_def py_getitem_def)
next
  case False
  from assms have "predict env (old_model s) (t_new t) \<noteq> []" by auto
  from np_amax_total[OF this] False show ?thesis by (auto simp: td_target_row_def)
qed

lemma learn_returns:
  assumes "save_model_round c \<noteq> 0"
    and "\<And>w x. predict env w x \<noteq> []"
    and "\<And>w w' x. length (predict env w x) = length (predict env w' x)"
  shows "\<exists>s'. learn c env r rew rnd s = Inr s'"
proof -
  have "\<exists>target. td_target c env (log_window c env r rew s)
      (mem_sample env (memory (log_window c env r rew s)) (batch_size c) 0.6 rnd) = Inr target"
    unfolding td_target_def
    by (rule traverse_total, rule td_target_row_total) (simp_all add: assms(2) assms(3))
  then show ?thesis using assms(1) by (auto simp: learn_def Let_def)
qed

lemma act_returns:
  assumes "prev_state = None \<or> prev_action \<in> set (ACTIONS env)"
    and "\<And>w x. length (predict env w x) = length (ACTIONS env)"
    and "ACTIONS env \<noteq> []"
  shows "\<exists>x s'. act c env r prev_state prev_action rew n rnd s = Inr (x, s')"
proof -
  have "\<exists>s2. remember env prev_state prev_action rew (get_state_repr env n)
      (cancel_exploration c r s) = Inr s2"
    using assms(1) py_index_total[of prev_action "ACTIONS env"]
    by (auto simp: remember_def split: option.splits)
  then obtain s2 where s2: "remember env prev_state prev_action rew (get_state_repr env n)
      (cancel_exploration c r s) = Inr s2" by blast
  have ne: "predict env (model s2) (get_state_repr env n) \<noteq> []"
    using assms(2)[of "model s2" "get_state_repr env n"] assms(3) by auto
  from np_argmax_total[OF ne] obtain j
    where j: "np_argmax (predict env (model s2) (get_state_repr env n)) = Inr j" by blast
  from np_argmax_first[OF j] assms(2) have "j < length (ACTIONS env)" by simp
  with s2 j show ?thesis by (simp add: act_def Let_def py_getitem_def)
qed

subsection \<open>The training step inside learn\<close>

lemma learn_after_train:
  assumes "learn c env r rew rnd s = Inr s'"
  shows "\<exists>target.
     td_target c env (log_window c env r rew s)
       (mem_sample env (memory s) (batch_size c) 0.6 rnd) = Inr target \<and>
     model s' = model (train env (mem_sample env (memory s) (batch_size c) 0.6 rnd) target
                        (log_window c env r rew s)) \<and>
     sum_of_loss s' = sum_of_loss (train env (mem_sample env (memory s) (batch_size c) 0.6 rnd)
                        target (log_window c env r rew s)) \<and>
     num_of_samples s' = num_of_samples (train env (mem_sample env (memory s) (batch_size c) 0.6 rnd)
                        target (log_window c env r rew s)) \<and>
     memory s' = memory (train env (mem_sample env (memory s) (batch_size c) 0.6 rnd) target
                        (log_window c env r rew s)) \<and>
     printed s' = printed (train env (mem_sample env (memory s) (batch_size c) 0.6 rnd) target
                        (log_window c env r rew s))"
  using assms
  by (auto simp: learn_def Let_def decay_def save_model_def log_window_frame
      split: sum.splits if_splits)

lemma train_fit:
  assumes "target_vectors env s batch target = Inr target_f"
  shows "(\<forall>e. fit env (model s) (map t_prev batch) target_f (map t_weight batch) = Inl e \<longrightarrow>
            train env batch target s = s\<lparr>printed := printed s @ [e]\<rparr>) \<and>
         (\<forall>w loss. fit env (model s) (map t_prev batch) target_f (map t_weight batch) = Inr (w, loss) \<longrightarrow>
            model (train env batch target s) = w \<and>
            sum_of_loss (train env batch target s) = sum_of_loss s + sum_list loss \<and>
            num_of_samples (train env batch target s) = num_of_samples s + length loss)"
  using assms by (auto simp: train_def Let_def split: sum.splits)

section \<open>The claims\<close>

subsection \<open>C9: the target network\<close>

text \<open>
  Claim C9. The weights of the target network change only in a \<^verbatim>\<open>learn\<close> call whose
  round is a positive multiple of \<^verbatim>\<open>save_model_round\<close>, and are then equal to the live
  network's weights as that call leaves them (a hard copy); every other \<^verbatim>\<open>learn\<close>
  call and every \<^verbatim>\<open>act\<close> call leaves them as they were, and \<^verbatim>\<open>init_run\<close> starts
  them equal to the live network's.
\<close>

theorem target_network_sync:
  "(learn c env r rew rnd s = Inr s' \<longrightarrow>
      old_model s' = (if r mod save_model_round c = 0 \<and> 0 < r then model s' else old_model s)) \<and>
   (act c env r p a rew n rnd s = Inr (x, s'') \<longrightarrow> old_model s'' = old_model s) \<and>
   old_model (init_run e b w w1 m) = model (init_run e b w w1 m)"
proof (intro conjI impI)
  assume "learn c env r rew rnd s = Inr s'"
  then show "old_model s' = (if r mod save_model_round c = 0 \<and> 0 < r then model s' else old_model s)"
    by (rule learn_old_model)
next
  assume "act c env r p a rew n rnd s = Inr (x, s'')"
  from act_state[OF this] show "old_model s'' = old_model s" by simp
next
  show "old_model (init_run e b w w1 m) = model (init_run e b w w1 m)"
    by (simp add: init_run_def emit_def save_model_def)
qed

text \<open>
  At round 250 the concrete instance trains (the live weights change) and synchronises; at
  round 251 it trains and the target network keeps its weights; an \<^verbatim>\<open>act\<close> call leaves
  them too.
\<close>

theorem target_network_sync_witness:
  "\<exists>s1 s2 x s3.
     learn demo_hyper demo_env 250 1 0 demo_policy = Inr s1 \<and> old_model s1 = model s1 \<and>
     model s1 \<noteq> model demo_policy \<and>
     learn demo_hyper demo_env 251 1 0 s1 = Inr s2 \<and> old_model s2 = old_model s1 \<and>
     model s2 \<noteq> model s1 \<and>
     act demo_hyper demo_env 252 (Some 3) ''R'' 1 4 0 s2 = Inr (x, s3) \<and> old_model s3 = old_model s2"
proof -
  have "\<exists>s1. learn demo_hyper demo_env 250 1 0 demo_policy = Inr s1 \<and> model s1 \<noteq> model demo_policy"
    by (simp add: demo_defs code_defs)
  then obtain s1 where s1: "learn demo_hyper demo_env 250 1 0 demo_policy = Inr s1"
    and m1: "model s1 \<noteq> model demo_policy" by blast
  have "\<exists>s2. learn demo_hyper demo_env 251 1 0 s1 = Inr s2 \<and> model s2 \<noteq> model s1"
    using s1 by (auto simp add: demo_defs code_defs)
  then obtain s2 where s2: "learn demo_hyper demo_env 251 1 0 s1 = Inr s2"
    and m2: "model s2 \<noteq> model s1" by blast
  have "\<exists>x s3. act demo_hyper demo_env 252 (Some 3) ''R'' 1 4 0 s2 = Inr (x, s3)"
    by (simp add: demo_defs code_defs)
  then obtain x s3 where s3: "act demo_hyper demo_env 252 (Some 3) ''R'' 1 4 0 s2 = Inr (x, s3)"
    by blast
  have sm: "save_model_round demo_hyper = 250" by (simp add: demo_defs)
  from target_network_sync[of demo_hyper demo_env 250 1 0 demo_policy s1, THEN conjunct1] s1 sm
  have a: "old_model s1 = model s1" by simp
  from target_network_sync[of demo_hyper demo_env 251 1 0 s1 s2, THEN conjunct1] s2 sm
  have b: "old_model s2 = old_model s1" by simp
  from target_network_sync[where c = demo_hyper and env = demo_env and r = 252 and rew = 1
      and rnd = 0 and s = s2 and p = "Some 3" and a = "''R''" and n = 4 and x = x and s'' = s3,
      THEN conjunct2, THEN conjunct1] s3
  have c: "old_model s3 = old_model s2" by simp
  from s1 m1 s2 m2 s3 a b c show ?thesis by blast
qed

subsection \<open>C10: epsilon after money-time\<close>

text \<open>
  Claim C10. After an \<^verbatim>\<open>act\<close> call with \<^verbatim>\<open>round > game_duration - score_scope\<close>
  epsilon is exactly 0, and it is 0 after every later call of the run (the decay of
  \<^verbatim>\<open>learn\<close> needs a positive epsilon), so that it is never the positive
  \<^verbatim>\<open>min_epsilon\<close> again. Here \<open>cs\<close> are the calls before that \<^verbatim>\<open>act\<close> call,
  \<open>ds\<close> any calls after it and \<open>es\<close> the calls after those.
\<close>

theorem epsilon_zero_after_money_time:
  assumes "run c env (cs @ Act r p a rew n rnd # ds @ es) s0 = Inr s'"
    and "game_duration c - score_scope c < r"
  shows "\<exists>s1. run c env (cs @ Act r p a rew n rnd # ds) s0 = Inr s1 \<and>
           epsilon s1 = 0 \<and> epsilon s' = 0 \<and>
           (0 < min_epsilon c \<longrightarrow> epsilon s1 \<noteq> min_epsilon c \<and> epsilon s' \<noteq> min_epsilon c)"
proof -
  have split: "cs @ Act r p a rew n rnd # ds @ es = (cs @ Act r p a rew n rnd # ds) @ es"
    by simp
  from assms(1) obtain s1 where s1: "run c env (cs @ Act r p a rew n rnd # ds) s0 = Inr s1"
    unfolding split run_append by (auto split: sum.splits)
  have m1: "list_ex (money_time c) (cs @ Act r p a rew n rnd # ds)"
    using assms(2) by simp
  have m2: "list_ex (money_time c) (cs @ Act r p a rew n rnd # ds @ es)"
    using assms(2) by simp
  from run_money_time[OF s1 m1] run_money_time[OF assms(1) m2] s1 show ?thesis by auto
qed

theorem epsilon_zero_after_money_time_witness:
  "\<exists>s1 s'.
     run demo_hyper demo_env
       ([Learn 200 1 0] @ Act 4001 None ''L'' 0 3 0 # [Learn 4200 1 0] @ [Act 4201 (Some 3) ''R'' 1 4 0])
       demo_policy = Inr s' \<and>
     run demo_hyper demo_env ([Learn 200 1 0] @ Act 4001 None ''L'' 0 3 0 # [Learn 4200 1 0])
       demo_policy = Inr s1 \<and>
     game_duration demo_hyper - score_scope demo_hyper < 4001 \<and> 0 < min_epsilon demo_hyper \<and>
     epsilon s1 = 0 \<and> epsilon s' = 0 \<and>
     epsilon s1 \<noteq> min_epsilon demo_hyper \<and> epsilon s' \<noteq> min_epsilon demo_hyper"
proof -
  have "\<exists>s'. run demo_hyper demo_env
       ([Learn 200 1 0] @ Act 4001 None ''L'' 0 3 0 # [Learn 4200 1 0] @ [Act 4201 (Some 3) ''R'' 1 4 0])
       demo_policy = Inr s'"
    by (simp add: demo_defs code_defs)
  then obtain s' where r: "run demo_hyper demo_env
       ([Learn 200 1 0] @ Act 4001 None ''L'' 0 3 0 # [Learn 4200 1 0] @ [Act 4201 (Some 3) ''R'' 1 4 0])
       demo_policy = Inr s'" by blast
  have m: "game_duration demo_hyper - score_scope demo_hyper < 4001" "0 < min_epsilon demo_hyper"
    by (simp_all add: demo_defs)
  from epsilon_zero_after_money_time[OF r m(1)] r m show ?thesis by blast
qed

subsection \<open>C1: epsilon never increases\<close>

text \<open>
  Claim C1, as stated, fails: an \<^verbatim>\<open>act\<close> call in money-time sets epsilon to 0, below
  \<^verbatim>\<open>min_epsilon\<close>. The concrete instance starts with epsilon 2 and
  \<^verbatim>\<open>min_epsilon\<close> 0.33; its first call is an \<^verbatim>\<open>act\<close> call at round 4001.
\<close>

theorem epsilon_floor_counterexample:
  "min_epsilon demo_hyper \<le> epsilon demo_policy \<and>
   run demo_hyper demo_env [Act 4001 None ''L'' 0 3 0] demo_policy =
     Inr (demo_policy\<lparr>use_softmax_sampling := False, epsilon := 0\<rparr>) \<and>
   epsilon (demo_policy\<lparr>use_softmax_sampling := False, epsilon := 0\<rparr>) < min_epsilon demo_hyper"
  by (simp add: demo_defs code_defs)

text \<open>
  Claim C1, amended. With \<^verbatim>\<open>0 \<le> min_epsilon\<close>, \<^verbatim>\<open>epsilon_decay \<le> 1\<close> and an initial
  epsilon of at least \<^verbatim>\<open>min_epsilon\<close>, epsilon never increases from one point of a run
  (after the calls \<open>cs\<close>) to a later one (after \<open>cs @ ds\<close>); it is at least
  \<^verbatim>\<open>min_epsilon\<close> as long as no \<^verbatim>\<open>act\<close> call with
  \<^verbatim>\<open>round > game_duration - score_scope\<close> has been made, and 0 afterwards.
\<close>

theorem epsilon_non_increasing:
  assumes "0 \<le> min_epsilon c" and "epsilon_decay c \<le> 1" and "min_epsilon c \<le> epsilon s0"
    and "run c env (cs @ ds) s0 = Inr s2"
  shows "\<exists>s1. run c env cs s0 = Inr s1 \<and> epsilon s2 \<le> epsilon s1 \<and> epsilon s1 \<le> epsilon s0 \<and>
           (if list_ex (money_time c) (cs @ ds) then epsilon s2 = 0 else min_epsilon c \<le> epsilon s2)"
proof -
  from assms(4) obtain s1 where s1: "run c env cs s0 = Inr s1" and s2: "run c env ds s1 = Inr s2"
    unfolding run_append by (auto split: sum.splits)
  from run_epsilon_mono[OF assms(1,2) s1] assms(3)
  have a: "epsilon s1 \<le> epsilon s0" and i: "epsilon s1 = 0 \<or> min_epsilon c \<le> epsilon s1" by auto
  from run_epsilon_mono[OF assms(1,2) s2 i] have b: "epsilon s2 \<le> epsilon s1" by simp
  have "epsilon s2 = 0" if "list_ex (money_time c) (cs @ ds)"
    using run_money_time[OF assms(4) that] by simp
  moreover have "min_epsilon c \<le> epsilon s2" if "\<not> list_ex (money_time c) (cs @ ds)"
    using run_epsilon_floor[OF assms(4) that assms(3)] .
  ultimately show ?thesis using s1 a b by auto
qed

theorem epsilon_non_increasing_witness:
  "\<exists>s1 s2 t1 t2.
     0 \<le> min_epsilon demo_hyper \<and> epsilon_decay demo_hyper \<le> 1 \<and>
     min_epsilon demo_hyper \<le> epsilon demo_policy \<and>
     run demo_hyper demo_env ([Act 1 None ''L'' 0 3 0, Learn 200 1 0] @ [Learn 400 1 0]) demo_policy
       = Inr s2 \<and>
     run demo_hyper demo_env [Act 1 None ''L'' 0 3 0, Learn 200 1 0] demo_policy = Inr s1 \<and>
     epsilon s2 \<le> epsilon s1 \<and> epsilon s1 \<le> epsilon demo_policy \<and>
     min_epsilon demo_hyper \<le> epsilon s2 \<and>
     run demo_hyper demo_env ([Learn 200 1 0] @ [Act 4001 None ''L'' 0 3 0, Learn 4200 1 0])
       demo_policy = Inr t2 \<and>
     run demo_hyper demo_env [Learn 200 1 0] demo_policy = Inr t1 \<and>
     epsilon t2 \<le> epsilon t1 \<and> epsilon t1 \<le> epsilon demo_policy \<and> epsilon t2 = 0"
proof -
  have h: "0 \<le> min_epsilon demo_hyper" "epsilon_decay demo_hyper \<le> 1"
    "min_epsilon demo_hyper \<le> epsilon demo_policy"
    by (simp_all add: demo_defs)
  have "\<exists>s2. run demo_hyper demo_env ([Act 1 None ''L'' 0 3 0, Learn 200 1 0] @ [Learn 400 1 0])
      demo_policy = Inr s2"
    by (simp add: demo_defs code_defs)
  then obtain s2 where r: "run demo_hyper demo_env
      ([Act 1 None ''L'' 0 3 0, Learn 200 1 0] @ [Learn 400 1 0]) demo_policy = Inr s2" by blast
  have nm: "\<not> list_ex (money_time demo_hyper)
      ([Act 1 None ''L'' 0 (3::nat) (0::nat), Learn 200 1 0] @ [Learn 400 1 0])"
    by (simp add: demo_defs)
  have "\<exists>t2. run demo_hyper demo_env ([Learn 200 1 0] @ [Act 4001 None ''L'' 0 3 0, Learn 4200 1 0])
      demo_policy = Inr t2"
    by (simp add: demo_defs code_defs)
  then obtain t2 where q: "run demo_hyper demo_env
      ([Learn 200 1 0] @ [Act 4001 None ''L'' 0 3 0, Learn 4200 1 0]) demo_policy = Inr t2"
    by blast
  have mt: "list_ex (money_time demo_hyper)
      ([Learn 200 1 0] @ [Act 4001 None ''L'' 0 (3::nat) (0::nat), Learn 4200 1 0])"
    by (simp add: demo_defs)
  from epsilon_non_increasing[OF h r] nm obtain s1
    where a: "run demo_hyper demo_env [Act 1 None ''L'' 0 3 0, Learn 200 1 0] demo_policy = Inr s1"
      "epsilon s2 \<le> epsilon s1" "epsilon s1 \<le> epsilon demo_policy"
      "min_epsilon demo_hyper \<le> epsilon s2"
    by auto
  from epsilon_non_increasing[OF h q] mt obtain t1
    where b: "run demo_hyper demo_env [Learn 200 1 0] demo_policy = Inr t1"
      "epsilon t2 \<le> epsilon t1" "epsilon t1 \<le> epsilon demo_policy" "epsilon t2 = 0"
    by auto
  from h r q a b show ?thesis by blast
qed

subsection \<open>C7: the decay schedule\<close>

text \<open>
  Claim C7. With \<^verbatim>\<open>epsilon_decay = 0.90\<close>, a \<^verbatim>\<open>learn\<close> call whose round is a positive
  multiple of 200 and that finds epsilon positive leaves
  \<^verbatim>\<open>max(epsilon * 0.90, min_epsilon)\<close>, and every other \<^verbatim>\<open>learn\<close> call leaves
  epsilon as it was. In a run that starts from epsilon 2.0 with \<^verbatim>\<open>min_epsilon = 0.33\<close>,
  has exactly 10 such \<^verbatim>\<open>learn\<close> calls and no \<^verbatim>\<open>act\<close> call in money-time, epsilon
  ends as \<^verbatim>\<open>max(2.0 * 0.9^10, 0.33)\<close>, which is 0.6973568802 (about 0.697).
\<close>

theorem epsilon_decay_schedule:
  assumes "epsilon_decay c = 0.9"
  shows "(learn c env r rew rnd s = Inr s' \<longrightarrow>
            epsilon s' = (if r mod 200 = 0 \<and> 0 < r \<and> 0 < epsilon s
                          then max (epsilon s * 0.9) (min_epsilon c) else epsilon s)) \<and>
         (min_epsilon c = 0.33 \<and> epsilon s0 = 2 \<and> run c env cs s0 = Inr s1 \<and>
          \<not> list_ex (money_time c) cs \<and> length (filter decay_event cs) = 10 \<longrightarrow>
            epsilon s1 = max (2 * 0.9 ^ 10) 0.33 \<and> epsilon s1 = 0.6973568802 \<and>
            \<bar>epsilon s1 - 0.697\<bar> < 0.001)"
proof (intro conjI impI)
  assume "learn c env r rew rnd s = Inr s'"
  then have "epsilon s' = (if r mod 200 = 0 \<and> 0 < r \<and> 0 < epsilon s
                      then decayed c (epsilon s) else epsilon s)"
    by (rule learn_epsilon)
  then show "epsilon s' = (if r mod 200 = 0 \<and> 0 < r \<and> 0 < epsilon s
                      then max (epsilon s * 0.9) (min_epsilon c) else epsilon s)"
    by (simp only: decayed_def assms)
next
  assume h: "min_epsilon c = 0.33 \<and> epsilon s0 = 2 \<and> run c env cs s0 = Inr s1 \<and>
          \<not> list_ex (money_time c) cs \<and> length (filter decay_event cs) = 10"
  then have pos: "0 < min_epsilon c" "0 < epsilon s0" by simp_all
  from h have "epsilon s1 = (decayed c ^^ 10) 2"
    using run_decay_count[OF pos(1), of env cs s0 s1] pos(2) by simp
  also have "\<dots> = 2 * 0.9 ^ 10"
    using h by (intro decays[OF assms]) simp_all
  finally have e: "epsilon s1 = 2 * 0.9 ^ 10" .
  have v: "(2::real) * 0.9 ^ 10 = 0.6973568802" by (simp add: power_divide)
  show "epsilon s1 = max (2 * 0.9 ^ 10) 0.33" unfolding e v by simp
  show "epsilon s1 = 0.6973568802" unfolding e v by simp
  show "\<bar>epsilon s1 - 0.697\<bar> < 0.001" unfolding e v by simp
qed

text \<open>
  The concrete instance, with \<^verbatim>\<open>learn\<close> calls at the rounds 200, 400, ..., 2000, one
  \<^verbatim>\<open>learn\<close> call at round 300 and one \<^verbatim>\<open>act\<close> call before money-time.
\<close>

theorem epsilon_decay_schedule_witness:
  "\<exists>s' s1.
     epsilon_decay demo_hyper = 0.9 \<and> min_epsilon demo_hyper = 0.33 \<and> epsilon demo_policy = 2 \<and>
     learn demo_hyper demo_env 200 1 0 demo_policy = Inr s' \<and> epsilon s' = 1.8 \<and>
     run demo_hyper demo_env
       [Learn 200 1 0, Act 201 None ''L'' 0 3 0, Learn 300 1 0, Learn 400 1 0, Learn 600 1 0,
        Learn 800 1 0, Learn 1000 1 0, Learn 1200 1 0, Learn 1400 1 0, Learn 1600 1 0,
        Learn 1800 1 0, Learn 2000 1 0] demo_policy = Inr s1 \<and>
     epsilon s1 = 0.6973568802"
proof -
  have h: "epsilon_decay demo_hyper = 0.9" "min_epsilon demo_hyper = 0.33" "epsilon demo_policy = 2"
    by (simp_all add: demo_defs)
  have "\<exists>s'. learn demo_hyper demo_env 200 1 0 demo_policy = Inr s'"
    by (simp add: demo_defs code_defs)
  then obtain s' where l: "learn demo_hyper demo_env 200 1 0 demo_policy = Inr s'" by blast
  have "\<exists>s1. run demo_hyper demo_env
       [Learn 200 1 0, Act 201 None ''L'' 0 3 0, Learn 300 1 0, Learn 400 1 0, Learn 600 1 0,
        Learn 800 1 0, Learn 1000 1 0, Learn 1200 1 0, Learn 1400 1 0, Learn 1600 1 0,
        Learn 1800 1 0, Learn 2000 1 0] demo_policy = Inr s1"
    by (simp add: demo_defs code_defs)
  then obtain s1 where r: "run demo_hyper demo_env
       [Learn 200 1 0, Act 201 None ''L'' 0 3 0, Learn 300 1 0, Learn 400 1 0, Learn 600 1 0,
        Learn 800 1 0, Learn 1000 1 0, Learn 1200 1 0, Learn 1400 1 0, Learn 1600 1 0,
        Learn 1800 1 0, Learn 2000 1 0] demo_policy = Inr s1" by blast
  have q: "\<not> list_ex (money_time demo_hyper)
       [Learn 200 1 0, Act 201 None ''L'' 0 (3::nat) (0::nat), Learn 300 1 0, Learn 400 1 0,
        Learn 600 1 0, Learn 800 1 0, Learn 1000 1 0, Learn 1200 1 0, Learn 1400 1 0,
        Learn 1600 1 0, Learn 1800 1 0, Learn 2000 1 0]"
    "length (filter decay_event
       [Learn 200 1 0, Act 201 None ''L'' 0 (3::nat) (0::nat), Learn 300 1 0, Learn 400 1 0,
        Learn 600 1 0, Learn 800 1 0, Learn 1000 1 0, Learn 1200 1 0, Learn 1400 1 0,
        Learn 1600 1 0, Learn 1800 1 0, Learn 2000 1 0]) = 10"
    by (simp_all add: demo_defs)
  from epsilon_decay_schedule[OF h(1), of demo_env 200 1 0 demo_policy s', THEN conjunct1] l h
  have a: "epsilon s' = 1.8" by simp
  from epsilon_decay_schedule[OF h(1), THEN conjunct2, rule_format, OF conjI[OF h(2) conjI[OF h(3) conjI[OF r conjI[OF q]]]]]
  have b: "epsilon s1 = 0.6973568802" by simp
  from h l a r b show ?thesis by blast
qed

subsection \<open>C8: the softmax temperature\<close>

text \<open>
  Claim C8. In a run that starts with a positive epsilon (and a positive
  \<^verbatim>\<open>min_epsilon\<close>), an \<^verbatim>\<open>act\<close> call that takes the softmax branch, that is one that
  finds \<^verbatim>\<open>use_softmax_sampling\<close> true at line 153 and so leaves it true, divides the
  Q-values by an epsilon that is positive, and at least the smaller of the initial epsilon
  and \<^verbatim>\<open>min_epsilon\<close>.
\<close>

theorem softmax_temperature_positive:
  assumes "0 < epsilon s0" and "0 < min_epsilon c"
    and "run c env cs s0 = Inr s"
    and "act c env r p a rew n rnd s = Inr (x, s')"
    and "use_softmax_sampling s'"
  shows "x = softmax_choice env rnd (predict env (model s') (get_state_repr env n)) (epsilon s') \<and>
         0 < epsilon s' \<and> min (epsilon s0) (min_epsilon c) \<le> epsilon s'"
proof -
  have r: "run c env (cs @ [Act r p a rew n rnd]) s0 = Inr s'"
    using assms(3,4) by (simp add: run_append)
  from run_temperature[OF r assms(5)] have b: "min (epsilon s0) (min_epsilon c) \<le> epsilon s'"
    by simp
  with assms(1,2) have "0 < epsilon s'" by (simp add: min_def split: if_splits)
  moreover from assms(4,5)
  have "x = softmax_choice env rnd (predict env (model s') (get_state_repr env n)) (epsilon s')"
    by (auto simp: act_def Let_def split: sum.splits if_splits)
  ultimately show ?thesis using b by simp
qed

theorem softmax_temperature_positive_witness:
  "\<exists>s x s'.
     0 < epsilon demo_policy \<and> 0 < min_epsilon demo_hyper \<and>
     run demo_hyper demo_env [Learn 200 1 0, Learn 400 1 0] demo_policy = Inr s \<and>
     act demo_hyper demo_env 401 None ''L'' 0 3 0 s = Inr (x, s') \<and>
     use_softmax_sampling s' \<and> 0 < epsilon s' \<and>
     x = softmax_choice demo_env 0 (predict demo_env (model s') (get_state_repr demo_env 3))
           (epsilon s')"
proof -
  have h: "0 < epsilon demo_policy" "0 < min_epsilon demo_hyper"
    by (simp_all add: demo_defs)
  have "\<exists>s x s'. run demo_hyper demo_env [Learn 200 1 0, Learn 400 1 0] demo_policy = Inr s \<and>
     act demo_hyper demo_env 401 None ''L'' 0 3 0 s = Inr (x, s') \<and> use_softmax_sampling s'"
    by (simp add: demo_defs code_defs)
  then obtain s x s' where r: "run demo_hyper demo_env [Learn 200 1 0, Learn 400 1 0] demo_policy = Inr s"
    and a: "act demo_hyper demo_env 401 None ''L'' 0 3 0 s = Inr (x, s')"
    and u: "use_softmax_sampling s'" by blast
  from softmax_temperature_positive[OF h r a u] h r a u show ?thesis by blast
qed

subsection \<open>C6: no exploration in money-time\<close>

text \<open>
  Claim C6. Once an \<^verbatim>\<open>act\<close> call with \<^verbatim>\<open>round > game_duration - score_scope\<close> has
  been made (among the earlier calls \<open>cs\<close>, or the call itself), an \<^verbatim>\<open>act\<close> call
  returns the action at the first maximiser of the live network's Q-values for the encoded
  new state, whatever the random source gives (\<^verbatim>\<open>np.random.rand()\<close> is never
  negative): two such calls, in two runs, with equal weights and equal encoded states return
  the same action.
\<close>

theorem greedy_in_money_time:
  assumes "run c env cs s0 = Inr s" and "run c env cs' s0' = Inr t"
    and "list_ex (money_time c) cs \<or> game_duration c - score_scope c < r"
    and "list_ex (money_time c) cs' \<or> game_duration c - score_scope c < r'"
    and "0 \<le> random_rand env rnd" and "0 \<le> random_rand env rnd'"
    and "act c env r p a rew n rnd s = Inr (x, s')"
    and "act c env r' p' a' rew' n' rnd' t = Inr (y, t')"
    and "model s = model t" and "get_state_repr env n = get_state_repr env n'"
  shows "x = y \<and>
         (\<exists>j. np_argmax (predict env (model s) (get_state_repr env n)) = Inr j \<and>
              j < length (ACTIONS env) \<and> x = ACTIONS env ! j)"
proof -
  have greedy: "\<exists>j. np_argmax (predict env (model u) (get_state_repr env m)) = Inr j \<and>
      j < length (ACTIONS env) \<and> z = ACTIONS env ! j"
    if run: "run c env ds u0 = Inr u"
      and mt: "list_ex (money_time c) ds \<or> game_duration c - score_scope c < k"
      and rand: "0 \<le> random_rand env q"
      and act: "act c env k pp aa rr m q u = Inr (z, u')"
    for ds u0 u k q pp aa rr m z u'
  proof -
    have full: "run c env (ds @ [Act k pp aa rr m q]) u0 = Inr u'"
      using run act by (simp add: run_append)
    have "list_ex (money_time c) (ds @ [Act k pp aa rr m q])"
      using mt by auto
    from run_money_time[OF full this] have z: "epsilon u' = 0" "\<not> use_softmax_sampling u'"
      by simp_all
    from act_state[OF act] have mo: "model u' = model u" by simp
    from act z rand mo show ?thesis
      by (auto simp: act_def Let_def py_getitem_def dest!: remember_frame
          split: sum.splits if_splits)
  qed
  from greedy[OF assms(1,3,5,7)] obtain j
    where j: "np_argmax (predict env (model s) (get_state_repr env n)) = Inr j"
      "j < length (ACTIONS env)" "x = ACTIONS env ! j" by blast
  from greedy[OF assms(2,4,6,8)] obtain j'
    where j': "np_argmax (predict env (model t) (get_state_repr env n')) = Inr j'"
      "y = ACTIONS env ! j'" by blast
  from j(1) j'(1) assms(9,10) have "j = j'" by simp
  with j j' show ?thesis by blast
qed

text \<open>
  The concrete instance: two runs that have reached money-time with the same weights, one
  \<^verbatim>\<open>act\<close> call in each, on the same new state, with different random sources,
  previous states and rewards.
\<close>

theorem greedy_in_money_time_witness:
  "\<exists>s t x s' y t'.
     run demo_hyper demo_env [Learn 1 1 0, Act 4001 None ''L'' 0 3 0] demo_policy = Inr s \<and>
     run demo_hyper demo_env [Act 1 None ''L'' 0 2 1, Learn 2 0 1] demo_policy = Inr t \<and>
     act demo_hyper demo_env 4002 (Some 3) ''R'' 1 7 0 s = Inr (x, s') \<and>
     act demo_hyper demo_env 4001 None ''L'' 0 7 5 t = Inr (y, t') \<and>
     model s = model t \<and> x = y \<and> x = ''R''"
proof -
  have "\<exists>s t x s' y t'.
     run demo_hyper demo_env [Learn 1 1 0, Act 4001 None ''L'' 0 3 0] demo_policy = Inr s \<and>
     run demo_hyper demo_env [Act 1 None ''L'' 0 2 1, Learn 2 0 1] demo_policy = Inr t \<and>
     act demo_hyper demo_env 4002 (Some 3) ''R'' 1 7 0 s = Inr (x, s') \<and>
     act demo_hyper demo_env 4001 None ''L'' 0 7 5 t = Inr (y, t') \<and>
     model s = model t \<and> x = ''R''"
    by (simp add: demo_defs code_defs)
  then obtain s t x s' y t' where
    r1: "run demo_hyper demo_env [Learn 1 1 0, Act 4001 None ''L'' 0 3 0] demo_policy = Inr s" and
    r2: "run demo_hyper demo_env [Act 1 None ''L'' 0 2 1, Learn 2 0 1] demo_policy = Inr t" and
    a1: "act demo_hyper demo_env 4002 (Some 3) ''R'' 1 7 0 s = Inr (x, s')" and
    a2: "act demo_hyper demo_env 4001 None ''L'' 0 7 5 t = Inr (y, t')" and
    m: "model s = model t" and xr: "x = ''R''" by blast
  have m1: "list_ex (money_time demo_hyper) [Learn 1 1 0, Act 4001 None ''L'' 0 (3::nat) (0::nat)]
      \<or> game_duration demo_hyper - score_scope demo_hyper < 4002"
    and m2: "list_ex (money_time demo_hyper) [Act 1 None ''L'' 0 (2::nat) (1::nat), Learn 2 0 1]
      \<or> game_duration demo_hyper - score_scope demo_hyper < 4001"
    and u: "0 \<le> random_rand demo_env 0" "0 \<le> random_rand demo_env 5"
    and g: "get_state_repr demo_env 7 = get_state_repr demo_env 7"
    by (simp_all add: demo_defs)
  from greedy_in_money_time[OF r1 r2 m1 m2 u a1 a2 m g] r1 r2 a1 a2 m xr show ?thesis by blast
qed

subsection \<open>C2: the TD target\<close>

lemma td_target_row_value:
  assumes "td_target_row c env s t = Inr v"
  shows "if doubleDQN c then
           \<exists>j. j < length (predict env (model s) (t_new t)) \<and>
               predict env (model s) (t_new t) ! j = Max (set (predict env (model s) (t_new t))) \<and>
               (\<forall>k<j. predict env (model s) (t_new t) ! k < predict env (model s) (t_new t) ! j) \<and>
               j < length (predict env (old_model s) (t_new t)) \<and>
               v = t_reward t + gamma c * predict env (old_model s) (t_new t) ! j
         else predict env (old_model s) (t_new t) \<noteq> [] \<and>
              v = t_reward t + gamma c * Max (set (predict env (old_model s) (t_new t)))"
proof (cases rule: case_split[of "doubleDQN c"])
  case True
  with assms obtain j q where j: "np_argmax (predict env (model s) (t_new t)) = Inr j"
    and q: "py_getitem (predict env (old_model s) (t_new t)) j = Inr q"
    and v: "v = t_reward t + gamma c * q"
    by (auto simp: td_target_row_def split: sum.splits)
  from q have "j < length (predict env (old_model s) (t_new t))"
    "q = predict env (old_model s) (t_new t) ! j"
    by (auto simp: py_getitem_def split: if_splits)
  with np_argmax_first[OF j] v True show ?thesis by auto
next
  case False
  with assms obtain m where m: "np_amax (predict env (old_model s) (t_new t)) = Inr m"
    and v: "v = t_reward t + gamma c * m"
    by (auto simp: td_target_row_def split: sum.splits)
  from m have "predict env (old_model s) (t_new t) \<noteq> []"
    "m = Max (set (predict env (old_model s) (t_new t)))"
    by (simp_all add: np_amax_Max)
  with v False show ?thesis by simp
qed

lemma td_target_row_networks:
  assumes m: "model s = model s'" and o: "old_model s = old_model s'"
  shows "td_target_row c env s t = td_target_row c env s' t"
  unfolding td_target_row_def m o ..

lemma td_target_rows:
  fixes s1 s :: "('w, 'm) policy"
  assumes "td_target c env s1 batch = Inr target"
    and "model s1 = model s" and "old_model s1 = old_model s"
    and "i < length batch"
  shows "length target = length batch \<and>
           (if doubleDQN c then
              \<exists>j. j < length (predict env (model s) (t_new (batch ! i))) \<and>
                  predict env (model s) (t_new (batch ! i)) ! j =
                    Max (set (predict env (model s) (t_new (batch ! i)))) \<and>
                  (\<forall>k<j. predict env (model s) (t_new (batch ! i)) ! k <
                          predict env (model s) (t_new (batch ! i)) ! j) \<and>
                  j < length (predict env (old_model s) (t_new (batch ! i))) \<and>
                  target ! i = t_reward (batch ! i) +
                    gamma c * predict env (old_model s) (t_new (batch ! i)) ! j
            else
              predict env (old_model s) (t_new (batch ! i)) \<noteq> [] \<and>
              target ! i = t_reward (batch ! i) +
                gamma c * Max (set (predict env (old_model s) (t_new (batch ! i)))))"
proof -
  have rows: "td_target_row c env s1 = td_target_row c env s"
    by (rule ext, rule td_target_row_networks) (simp_all add: assms(2,3))
  from assms(1) have tr: "traverse (td_target_row c env s) batch = Inr target"
    by (simp add: td_target_def rows)
  from traverse_Inr[OF tr] assms(4)
  have len: "length target = length batch"
    and row: "td_target_row c env s (batch ! i) = Inr (target ! i)" by simp_all
  from td_target_row_value[OF row] len show ?thesis by auto
qed

lemma learn_td_target:
  assumes "learn c env r rew rnd s = Inr s'"
  shows "\<exists>target. td_target c env (log_window c env r rew s)
            (mem_sample env (memory (log_window c env r rew s)) (batch_size c) 0.6 rnd) = Inr target"
  using assms by (auto simp: learn_def Let_def split: sum.splits)

text \<open>
  Claim C2. In every \<^verbatim>\<open>learn\<close> call that returns, with \<open>batch\<close> the rows the buffer
  hands out, the TD target of row \<open>i\<close> is the reward plus \<^verbatim>\<open>gamma\<close> times the largest
  Q-value of the target network at the next state when \<^verbatim>\<open>doubleDQN\<close> is false, and the
  reward plus \<^verbatim>\<open>gamma\<close> times the target network's Q-value, at the next state, for the
  (first) action \<open>j\<close> that maximises the live network's Q-values there when it is true.
\<close>

theorem td_target_of_learn:
  assumes "learn c env r rew rnd s = Inr s'"
    and "batch = mem_sample env (memory (log_window c env r rew s)) (batch_size c) 0.6 rnd"
    and "i < length batch"
  shows "\<exists>target. td_target c env (log_window c env r rew s) batch = Inr target \<and>
           length target = length batch \<and>
           (if doubleDQN c then
              \<exists>j. j < length (predict env (model s) (t_new (batch ! i))) \<and>
                  predict env (model s) (t_new (batch ! i)) ! j =
                    Max (set (predict env (model s) (t_new (batch ! i)))) \<and>
                  (\<forall>k<j. predict env (model s) (t_new (batch ! i)) ! k <
                          predict env (model s) (t_new (batch ! i)) ! j) \<and>
                  j < length (predict env (old_model s) (t_new (batch ! i))) \<and>
                  target ! i = t_reward (batch ! i) +
                    gamma c * predict env (old_model s) (t_new (batch ! i)) ! j
            else
              predict env (old_model s) (t_new (batch ! i)) \<noteq> [] \<and>
              target ! i = t_reward (batch ! i) +
                gamma c * Max (set (predict env (old_model s) (t_new (batch ! i)))))"
proof -
  from learn_td_target[OF assms(1)] assms(2) obtain target
    where t: "td_target c env (log_window c env r rew s) batch = Inr target" by blast
  from td_target_rows[OF t _ _ assms(3), of s] t show ?thesis
    by (simp add: log_window_frame)
qed
text \<open>
  The concrete instance after some training: the live weights are 5, the target weights 0,
  and the buffer holds one row, with reward 1 and next state 2. The target network's
  Q-values there are 0, 2, 1 and the live network's are 5, 2, 1: the target is
  \<open>1 + 0.75 * 2\<close> without \<^verbatim>\<open>doubleDQN\<close> and \<open>1 + 0.75 * 0\<close> with it.
\<close>

theorem td_target_of_learn_witness:
  "\<exists>s' target s'' target'.
     learn demo_hyper demo_env 1 0 0 demo_trained = Inr s' \<and>
     0 < length (mem_sample demo_env (memory (log_window demo_hyper demo_env 1 0 demo_trained))
                  (batch_size demo_hyper) 0.6 0) \<and>
     td_target demo_hyper demo_env (log_window demo_hyper demo_env 1 0 demo_trained)
       (mem_sample demo_env (memory (log_window demo_hyper demo_env 1 0 demo_trained))
          (batch_size demo_hyper) 0.6 0) = Inr target \<and>
     target ! 0 = 2.5 \<and>
     learn (demo_hyper\<lparr>doubleDQN := True\<rparr>) demo_env 1 0 0 demo_trained = Inr s'' \<and>
     td_target (demo_hyper\<lparr>doubleDQN := True\<rparr>) demo_env
       (log_window (demo_hyper\<lparr>doubleDQN := True\<rparr>) demo_env 1 0 demo_trained)
       (mem_sample demo_env
          (memory (log_window (demo_hyper\<lparr>doubleDQN := True\<rparr>) demo_env 1 0 demo_trained))
          (batch_size (demo_hyper\<lparr>doubleDQN := True\<rparr>)) 0.6 0) = Inr target' \<and>
     target' ! 0 = 1"
proof -
  define b where "b = mem_sample demo_env (memory (log_window demo_hyper demo_env 1 0 demo_trained))
                  (batch_size demo_hyper) 0.6 0"
  define b' where "b' = mem_sample demo_env
          (memory (log_window (demo_hyper\<lparr>doubleDQN := True\<rparr>) demo_env 1 0 demo_trained))
          (batch_size (demo_hyper\<lparr>doubleDQN := True\<rparr>)) 0.6 0"
  have bv: "b = [\<lparr>t_prev = 3, t_action = 2, t_reward = 1, t_new = 2, t_weight = 1, t_idx = 0\<rparr>]"
    and bv': "b' = [\<lparr>t_prev = 3, t_action = 2, t_reward = 1, t_new = 2, t_weight = 1, t_idx = 0\<rparr>]"
    by (simp_all add: b_def b'_def demo_trained_def demo_defs code_defs)
  have "\<exists>s'. learn demo_hyper demo_env 1 0 0 demo_trained = Inr s'"
    by (simp add: demo_trained_def demo_defs code_defs)
  then obtain s' where l: "learn demo_hyper demo_env 1 0 0 demo_trained = Inr s'" by blast
  have "\<exists>s''. learn (demo_hyper\<lparr>doubleDQN := True\<rparr>) demo_env 1 0 0 demo_trained = Inr s''"
    by (simp add: demo_trained_def demo_defs code_defs)
  then obtain s'' where l': "learn (demo_hyper\<lparr>doubleDQN := True\<rparr>) demo_env 1 0 0 demo_trained = Inr s''"
    by blast
  have len: "0 < length b" "0 < length b'" by (simp_all add: bv bv')
  from td_target_of_learn[OF l b_def len(1)] obtain target
    where t: "td_target demo_hyper demo_env (log_window demo_hyper demo_env 1 0 demo_trained) b
                = Inr target"
      and v: "target ! 0 = t_reward (b ! 0) +
                gamma demo_hyper * Max (set (predict demo_env (old_model demo_trained) (t_new (b ! 0))))"
    by (auto simp: demo_defs)
  from v have v1: "target ! 0 = 2.5"
    by (simp add: bv demo_trained_def demo_defs)
  from td_target_of_learn[OF l' b'_def len(2)] obtain target' j
    where t': "td_target (demo_hyper\<lparr>doubleDQN := True\<rparr>) demo_env
                 (log_window (demo_hyper\<lparr>doubleDQN := True\<rparr>) demo_env 1 0 demo_trained) b'
                = Inr target'"
      and j: "j < length (predict demo_env (model demo_trained) (t_new (b' ! 0)))"
        "predict demo_env (model demo_trained) (t_new (b' ! 0)) ! j =
           Max (set (predict demo_env (model demo_trained) (t_new (b' ! 0))))"
      and v': "target' ! 0 = t_reward (b' ! 0) +
                gamma (demo_hyper\<lparr>doubleDQN := True\<rparr>) *
                  predict demo_env (old_model demo_trained) (t_new (b' ! 0)) ! j"
    by (auto simp: demo_defs)
  from j have "j = 0"
    by (auto simp: bv' demo_trained_def demo_defs less_Suc_eq numeral_3_eq_3)
  with v' have v2: "target' ! 0 = 1"
    by (simp add: bv' demo_trained_def demo_defs)
  from l len(1) t v1 l' t' v2 show ?thesis
    unfolding b_def b'_def by blast
qed

subsection \<open>C3: the regression target\<close>

lemma target_vectors_row:
  assumes "target_vectors env s batch target = Inr target_f"
    and "length target = length batch" and "i < length batch"
  shows "t_action (batch ! i) < length (predict env (model s) (t_prev (batch ! i))) \<and>
         target_f ! i =
           (predict env (model s) (t_prev (batch ! i)))[t_action (batch ! i) := target ! i]"
proof -
  let ?rows = "zip (map (\<lambda>t. predict env (model s) (t_prev t)) batch)
                 (zip (map t_action batch) target)"
  from assms(1) have tr: "traverse assign_row ?rows = Inr target_f"
    by (simp add: target_vectors_def)
  have i: "i < length ?rows" using assms(2,3) by simp
  then have row: "?rows ! i =
      (predict env (model s) (t_prev (batch ! i)), t_action (batch ! i), target ! i)"
    using assms(2,3) by simp
  from traverse_Inr[OF tr] i have "assign_row (?rows ! i) = Inr (target_f ! i)" by blast
  then show ?thesis unfolding row by (auto simp: assign_row_def split: if_splits)
qed

text \<open>
  Claim C3. In every \<^verbatim>\<open>learn\<close> call that returns, the target vectors of line 124
  (when the assignment does not raise) are, row by row, the live network's prediction for
  the previous state with the entry of the taken action replaced by the TD target of the
  row: that entry is the TD target and every other entry is the prediction's. With
  \<^verbatim>\<open>doubleDQN\<close> false, gamma 0.75, reward 1.0 and a largest target-network Q-value of
  2.0 at the next state, the taken action's entry is 2.5. These vectors are what the
  gradient step receives: the call's \<^verbatim>\<open>model.fit\<close> is the one on the previous states,
  these vectors and the sample weights, the live weights after the call are the weights
  that this \<^verbatim>\<open>fit\<close> gives, its loss history is what the call adds to the loss sum and
  the sample count, and when it raises the weights stay and its exception is printed.
\<close>

theorem target_vector_of_learn:
  assumes "learn c env r rew rnd s = Inr s'"
    and "batch = mem_sample env (memory (log_window c env r rew s)) (batch_size c) 0.6 rnd"
    and "td_target c env (log_window c env r rew s) batch = Inr target"
    and "target_vectors env (log_window c env r rew s) batch target = Inr target_f"
    and "i < length batch"
  shows "target_f ! i =
           (predict env (model s) (t_prev (batch ! i)))[t_action (batch ! i) := target ! i] \<and>
         t_action (batch ! i) < length (predict env (model s) (t_prev (batch ! i))) \<and>
         target_f ! i ! t_action (batch ! i) = target ! i \<and>
         (\<forall>j. j \<noteq> t_action (batch ! i) \<longrightarrow>
              target_f ! i ! j = predict env (model s) (t_prev (batch ! i)) ! j) \<and>
         (\<not> doubleDQN c \<and> gamma c = 0.75 \<and> t_reward (batch ! i) = 1 \<and>
          Max (set (predict env (old_model s) (t_new (batch ! i)))) = 2 \<longrightarrow>
            target_f ! i ! t_action (batch ! i) = 2.5) \<and>
         (\<forall>w loss.
            fit env (model s) (map t_prev batch) target_f (map t_weight batch) = Inr (w, loss) \<longrightarrow>
              model s' = w \<and>
              sum_of_loss s' = sum_of_loss (log_window c env r rew s) + sum_list loss \<and>
              num_of_samples s' = num_of_samples (log_window c env r rew s) + length loss) \<and>
         (\<forall>e. fit env (model s) (map t_prev batch) target_f (map t_weight batch) = Inl e \<longrightarrow>
              model s' = model s \<and> printed s' = printed s @ [e])"
proof -
  from td_target_rows[OF assms(3) _ _ assms(5), of s]
  have len: "length target = length batch"
    and tv: "\<not> doubleDQN c \<Longrightarrow> target ! i = t_reward (batch ! i) +
                gamma c * Max (set (predict env (old_model s) (t_new (batch ! i))))"
    by (auto simp: log_window_frame split: if_splits)
  from target_vectors_row[OF assms(4) len assms(5)]
  have a: "t_action (batch ! i) < length (predict env (model s) (t_prev (batch ! i)))"
    and row: "target_f ! i =
           (predict env (model s) (t_prev (batch ! i)))[t_action (batch ! i) := target ! i]"
    by (simp_all add: log_window_frame)
  from a row have slot: "target_f ! i ! t_action (batch ! i) = target ! i" by simp
  from row have others: "\<forall>j. j \<noteq> t_action (batch ! i) \<longrightarrow>
              target_f ! i ! j = predict env (model s) (t_prev (batch ! i)) ! j"
    by simp
  have scen: "target_f ! i ! t_action (batch ! i) = 2.5"
    if "\<not> doubleDQN c \<and> gamma c = 0.75 \<and> t_reward (batch ! i) = 1 \<and>
          Max (set (predict env (old_model s) (t_new (batch ! i)))) = 2"
    using tv that slot by simp
  have b: "batch = mem_sample env (memory s) (batch_size c) 0.6 rnd"
    using assms(2) by (simp add: log_window_frame)
  from learn_after_train[OF assms(1)] assms(3)
  have tr: "model s' = model (train env batch target (log_window c env r rew s))"
    "sum_of_loss s' = sum_of_loss (train env batch target (log_window c env r rew s))"
    "num_of_samples s' = num_of_samples (train env batch target (log_window c env r rew s))"
    "printed s' = printed (train env batch target (log_window c env r rew s))"
    unfolding b by auto
  have ok: "model s' = w \<and>
      sum_of_loss s' = sum_of_loss (log_window c env r rew s) + sum_list loss \<and>
      num_of_samples s' = num_of_samples (log_window c env r rew s) + length loss"
    if "fit env (model s) (map t_prev batch) target_f (map t_weight batch) = Inr (w, loss)"
    for w loss
    using train_fit[OF assms(4)] that tr by (simp add: log_window_frame)
  have bad: "model s' = model s \<and> printed s' = printed s @ [e]"
    if "fit env (model s) (map t_prev batch) target_f (map t_weight batch) = Inl e" for e
    using train_fit[OF assms(4)] that tr by (simp add: log_window_frame)
  from row a slot others scen ok bad show ?thesis by blast
qed

text \<open>
  The concrete instance after some training, with a \<^verbatim>\<open>fit\<close> that adds the entries
  of the target vectors to the weights: the live network predicts 5, 3, 1 for the previous
  state 3, the row's action is the third one, the third entry becomes 2.5, and the weights
  go from 5 to 5 + (5 + 3 + 2.5).
\<close>

theorem target_vector_of_learn_witness:
  "\<exists>s' target target_f.
     learn demo_hyper demo_env_sensitive_fit 1 0 0 demo_trained = Inr s' \<and>
     td_target demo_hyper demo_env_sensitive_fit
       (log_window demo_hyper demo_env_sensitive_fit 1 0 demo_trained)
       (mem_sample demo_env_sensitive_fit
          (memory (log_window demo_hyper demo_env_sensitive_fit 1 0 demo_trained))
          (batch_size demo_hyper) 0.6 0) = Inr target \<and>
     target_vectors demo_env_sensitive_fit
       (log_window demo_hyper demo_env_sensitive_fit 1 0 demo_trained)
       (mem_sample demo_env_sensitive_fit
          (memory (log_window demo_hyper demo_env_sensitive_fit 1 0 demo_trained))
          (batch_size demo_hyper) 0.6 0) target = Inr target_f \<and>
     target_f ! 0 = [5, 3, 2.5] \<and>
     fit demo_env_sensitive_fit (model demo_trained) [3] target_f [1] = Inr (15.5, [1 / 2]) \<and>
     model s' = 15.5 \<and> num_of_samples s' = 1 \<and> sum_of_loss s' = 1 / 2"
proof -
  define b where "b = mem_sample demo_env_sensitive_fit
      (memory (log_window demo_hyper demo_env_sensitive_fit 1 0 demo_trained))
      (batch_size demo_hyper) 0.6 0"
  have bv: "b = [\<lparr>t_prev = 3, t_action = 2, t_reward = 1, t_new = 2, t_weight = 1, t_idx = 0\<rparr>]"
    by (simp add: b_def demo_trained_def demo_env_sensitive_fit_def demo_defs code_defs)
  have "\<exists>s'. learn demo_hyper demo_env_sensitive_fit 1 0 0 demo_trained = Inr s'"
    by (simp add: demo_trained_def demo_env_sensitive_fit_def demo_defs code_defs)
  then obtain s' where l: "learn demo_hyper demo_env_sensitive_fit 1 0 0 demo_trained = Inr s'"
    by blast
  have "\<exists>target. td_target demo_hyper demo_env_sensitive_fit
      (log_window demo_hyper demo_env_sensitive_fit 1 0 demo_trained) b = Inr target"
    by (simp add: bv demo_trained_def demo_env_sensitive_fit_def demo_defs code_defs)
  then obtain target
    where t: "td_target demo_hyper demo_env_sensitive_fit
      (log_window demo_hyper demo_env_sensitive_fit 1 0 demo_trained) b = Inr target" by blast
  have "\<exists>target_f. target_vectors demo_env_sensitive_fit
      (log_window demo_hyper demo_env_sensitive_fit 1 0 demo_trained) b target = Inr target_f \<and>
      length target_f = 1"
    using t by (auto simp add: bv demo_trained_def demo_env_sensitive_fit_def demo_defs code_defs)
  then obtain target_f
    where f: "target_vectors demo_env_sensitive_fit
      (log_window demo_hyper demo_env_sensitive_fit 1 0 demo_trained) b target = Inr target_f"
      and fl: "length target_f = 1" by blast
  have len: "0 < length b" by (simp add: bv)
  have sc: "\<not> doubleDQN demo_hyper \<and> gamma demo_hyper = 0.75 \<and> t_reward (b ! 0) = 1 \<and>
          Max (set (predict demo_env_sensitive_fit (old_model demo_trained) (t_new (b ! 0)))) = 2"
    by (simp add: bv demo_trained_def demo_env_sensitive_fit_def demo_defs)
  note main = target_vector_of_learn[OF l b_def t f len]
  from main sc
  have "target_f ! 0 = (predict demo_env_sensitive_fit (model demo_trained) (t_prev (b ! 0)))
                          [t_action (b ! 0) := target ! 0]"
    and "target_f ! 0 ! t_action (b ! 0) = target ! 0"
    and "target_f ! 0 ! t_action (b ! 0) = 2.5"
    by blast+
  then have row: "target_f ! 0 = [5, 3, 2.5]"
    by (simp add: bv demo_trained_def demo_env_sensitive_fit_def demo_defs)
  from fl obtain x where "target_f = [x]" by (cases target_f) auto
  with row have tf: "target_f = [[5, 3, 2.5]]" by simp
  have fitv: "fit demo_env_sensitive_fit (model demo_trained) (map t_prev b) target_f
      (map t_weight b) = Inr (15.5, [1 / 2])"
    by (simp add: tf bv demo_trained_def demo_env_sensitive_fit_def demo_defs)
  from main fitv
  have "model s' = 15.5"
    and "sum_of_loss s' = sum_of_loss (log_window demo_hyper demo_env_sensitive_fit 1 0 demo_trained)
           + sum_list [1 / 2]"
    and "num_of_samples s' =
           num_of_samples (log_window demo_hyper demo_env_sensitive_fit 1 0 demo_trained)
           + length [1 / 2 :: real]"
    by blast+
  then have after: "model s' = 15.5" "sum_of_loss s' = 1 / 2" "num_of_samples s' = 1"
    by (simp_all add: demo_trained_def demo_env_sensitive_fit_def demo_defs code_defs)
  from fitv have fitv': "fit demo_env_sensitive_fit (model demo_trained) [3] target_f [1]
      = Inr (15.5, [1 / 2])"
    by (simp add: bv)
  from l t f row fitv' after show ?thesis unfolding b_def by blast
qed

subsection \<open>C4 and C5: the running statistics at a 100-round boundary\<close>

lemma learn_statistics:
  assumes "learn c env r rew rnd s = Inr s'"
  shows "r_sum s' = r_sum (log_window c env r rew s)"
    and "logged s' = logged (log_window c env r rew s)"
  using assms
  by (auto simp: learn_def Let_def decay_def save_model_def train_frame
      split: sum.splits if_splits)

lemma window_stats_raises:
  "window_stats c env r rew s = Inl e \<longleftrightarrow>
     e = ZeroDivisionError \<and> r mod 100 = 0 \<and> r \<le> game_duration c - score_scope c \<and>
     num_of_samples s = 0"
  by (auto simp: window_stats_def Let_def)

text \<open>
  Claim C4, as stated, fails: at a multiple of 100 inside the money-time window the loss sum
  and the sample count are not reset. In the concrete instance three \<^verbatim>\<open>learn\<close> calls
  bring them to 3/2 and 3; the \<^verbatim>\<open>learn\<close> call of round 4100 resets the reward sum,
  its bookkeeping leaves the other two as they are, and its training step adds to them.
\<close>

theorem window_reset_counterexample:
  "4100 mod 100 = (0::int) \<and>
   run demo_hyper demo_env [Learn 4001 1 0, Learn 4002 1 0, Learn 4003 1 0] demo_policy =
     Inr (demo_policy\<lparr>r_sum := 3, sum_of_loss := 3 / 2, num_of_samples := 3, model := 3\<rparr>) \<and>
   sum_of_loss (log_window demo_hyper demo_env 4100 1
     (demo_policy\<lparr>r_sum := 3, sum_of_loss := 3 / 2, num_of_samples := 3, model := 3\<rparr>)) = 3 / 2 \<and>
   num_of_samples (log_window demo_hyper demo_env 4100 1
     (demo_policy\<lparr>r_sum := 3, sum_of_loss := 3 / 2, num_of_samples := 3, model := 3\<rparr>)) = 3 \<and>
   learn demo_hyper demo_env 4100 1 0
     (demo_policy\<lparr>r_sum := 3, sum_of_loss := 3 / 2, num_of_samples := 3, model := 3\<rparr>) =
     Inr (demo_policy\<lparr>r_sum := 0, sum_of_loss := 2, num_of_samples := 4, model := 4,
            logged := logged demo_policy @ [(ScoreWindow 3 2 0, VALUE)]\<rparr>)"
  by (simp add: demo_defs code_defs)

text \<open>
  Claim C4, amended. At a round that is a multiple of 100 the bookkeeping of \<^verbatim>\<open>learn\<close>
  resets the reward sum in both windows, unless it raises (a zero sample count outside
  money-time), and the reward sum is then zero at the end of the call; the loss sum and the
  sample count are reset only outside the money-time window
  (\<^verbatim>\<open>round \<le> game_duration - score_scope\<close>), before the training step of the call, and
  are left as they are by the bookkeeping inside it.
\<close>

theorem window_reset:
  assumes "r mod 100 = 0"
  shows "(game_duration c - score_scope c < r \<longrightarrow>
            r_sum (log_window c env r rew s) = 0 \<and>
            sum_of_loss (log_window c env r rew s) = sum_of_loss s \<and>
            num_of_samples (log_window c env r rew s) = num_of_samples s) \<and>
         (r \<le> game_duration c - score_scope c \<and> num_of_samples s \<noteq> 0 \<longrightarrow>
            r_sum (log_window c env r rew s) = 0 \<and>
            sum_of_loss (log_window c env r rew s) = 0 \<and>
            num_of_samples (log_window c env r rew s) = 0) \<and>
         (learn c env r rew rnd s = Inr s' \<and>
          (game_duration c - score_scope c < r \<or> num_of_samples s \<noteq> 0) \<longrightarrow> r_sum s' = 0)"
proof -
  have a: "r_sum (log_window c env r rew s) = 0 \<and>
            sum_of_loss (log_window c env r rew s) = sum_of_loss s \<and>
            num_of_samples (log_window c env r rew s) = num_of_samples s"
    if "game_duration c - score_scope c < r"
    using that assms by (simp add: log_window_def window_stats_def emit_def)
  have b: "r_sum (log_window c env r rew s) = 0 \<and>
            sum_of_loss (log_window c env r rew s) = 0 \<and>
            num_of_samples (log_window c env r rew s) = 0"
    if "r \<le> game_duration c - score_scope c \<and> num_of_samples s \<noteq> 0"
    using that assms by (simp add: log_window_def window_stats_def emit_def Let_def)
  have "r_sum s' = 0"
    if l: "learn c env r rew rnd s = Inr s' \<and>
          (game_duration c - score_scope c < r \<or> num_of_samples s \<noteq> 0)"
  proof -
    from l a b have "r_sum (log_window c env r rew s) = 0" by force
    with l learn_statistics(1)[of c env r rew rnd s s'] show ?thesis by simp
  qed
  with a b show ?thesis by blast
qed

theorem window_reset_witness:
  "\<exists>s' t'. (3000::int) mod 100 = 0 \<and> 3000 \<le> game_duration demo_hyper - score_scope demo_hyper \<and>
     num_of_samples (demo_policy\<lparr>r_sum := 3, sum_of_loss := 3 / 2, num_of_samples := 3\<rparr>) \<noteq> 0 \<and>
     r_sum (log_window demo_hyper demo_env 3000 1
       (demo_policy\<lparr>r_sum := 3, sum_of_loss := 3 / 2, num_of_samples := 3\<rparr>)) = 0 \<and>
     sum_of_loss (log_window demo_hyper demo_env 3000 1
       (demo_policy\<lparr>r_sum := 3, sum_of_loss := 3 / 2, num_of_samples := 3\<rparr>)) = 0 \<and>
     num_of_samples (log_window demo_hyper demo_env 3000 1
       (demo_policy\<lparr>r_sum := 3, sum_of_loss := 3 / 2, num_of_samples := 3\<rparr>)) = 0 \<and>
     learn demo_hyper demo_env 3000 1 0
       (demo_policy\<lparr>r_sum := 3, sum_of_loss := 3 / 2, num_of_samples := 3\<rparr>) = Inr s' \<and>
     r_sum s' = 0 \<and>
     (4100::int) mod 100 = 0 \<and> game_duration demo_hyper - score_scope demo_hyper < 4100 \<and>
     r_sum (log_window demo_hyper demo_env 4100 1
       (demo_policy\<lparr>r_sum := 3, sum_of_loss := 3 / 2, num_of_samples := 3\<rparr>)) = 0 \<and>
     sum_of_loss (log_window demo_hyper demo_env 4100 1
       (demo_policy\<lparr>r_sum := 3, sum_of_loss := 3 / 2, num_of_samples := 3\<rparr>)) = 3 / 2 \<and>
     num_of_samples (log_window demo_hyper demo_env 4100 1
       (demo_policy\<lparr>r_sum := 3, sum_of_loss := 3 / 2, num_of_samples := 3\<rparr>)) = 3 \<and>
     learn demo_hyper demo_env 4100 1 0
       (demo_policy\<lparr>r_sum := 3, sum_of_loss := 3 / 2, num_of_samples := 3\<rparr>) = Inr t' \<and>
     r_sum t' = 0"
proof -
  define s where "s = demo_policy\<lparr>r_sum := 3, sum_of_loss := 3 / 2, num_of_samples := 3\<rparr>"
  have h: "(3000::int) mod 100 = 0" "3000 \<le> game_duration demo_hyper - score_scope demo_hyper"
    "num_of_samples s \<noteq> 0"
    and k: "(4100::int) mod 100 = 0" "game_duration demo_hyper - score_scope demo_hyper < 4100"
    and v0: "sum_of_loss s = 3 / 2" "num_of_samples s = 3"
    by (simp_all add: s_def demo_defs)
  have "\<exists>s'. learn demo_hyper demo_env 3000 1 0 s = Inr s'"
    by (simp add: s_def demo_defs code_defs)
  then obtain s' where l: "learn demo_hyper demo_env 3000 1 0 s = Inr s'" by blast
  have "\<exists>t'. learn demo_hyper demo_env 4100 1 0 s = Inr t'"
    by (simp add: s_def demo_defs code_defs)
  then obtain t' where m: "learn demo_hyper demo_env 4100 1 0 s = Inr t'" by blast
  from window_reset[OF h(1), of demo_hyper demo_env 1 s 0 s'] h l
  have v: "r_sum (log_window demo_hyper demo_env 3000 1 s) = 0"
    "sum_of_loss (log_window demo_hyper demo_env 3000 1 s) = 0"
    "num_of_samples (log_window demo_hyper demo_env 3000 1 s) = 0"
    "r_sum s' = 0"
    by blast+
  from window_reset[OF k(1), of demo_hyper demo_env 1 s 0 t'] k m
  have w: "r_sum (log_window demo_hyper demo_env 4100 1 s) = 0"
    "sum_of_loss (log_window demo_hyper demo_env 4100 1 s) = sum_of_loss s"
    "num_of_samples (log_window demo_hyper demo_env 4100 1 s) = num_of_samples s"
    "r_sum t' = 0"
    by blast+
  show ?thesis unfolding s_def[symmetric]
    by (rule exI[of _ s'], rule exI[of _ t']) (simp add: h k l m v w v0)
qed

text \<open>
  Claim C5, as stated, fails: when the bookkeeping raises, the reset of line 107 is skipped
  with the rest of the block. In the concrete instance with a \<^verbatim>\<open>fit\<close> that always
  raises, the \<^verbatim>\<open>learn\<close> call of round 1 adds its reward 7 to the reward sum and trains
  nothing; the \<^verbatim>\<open>learn\<close> call of round 100 divides by the zero sample count, logs the
  exception, and leaves the reward sum at 7.
\<close>

theorem window_exception_counterexample:
  "run demo_hyper demo_env_failing_fit [Learn 1 7 0] demo_policy =
     Inr (demo_policy\<lparr>r_sum := 7, printed := [ExternalError]\<rparr>) \<and>
   learn demo_hyper demo_env_failing_fit 100 1 0
       (demo_policy\<lparr>r_sum := 7, printed := [ExternalError]\<rparr>) =
     Inr (demo_policy\<lparr>r_sum := 7,
            logged := logged demo_policy @
              [(SomethingWentWrong, EXCEPTION), (Raised ZeroDivisionError, EXCEPTION)],
            printed := [ExternalError, ExternalError]\<rparr>) \<and>
   r_sum (demo_policy\<lparr>r_sum := 7,
            logged := logged demo_policy @
              [(SomethingWentWrong, EXCEPTION), (Raised ZeroDivisionError, EXCEPTION)],
            printed := [ExternalError, ExternalError]\<rparr>) \<noteq> 0"
  by (simp add: demo_env_failing_fit_def demo_defs code_defs)

text \<open>
  Claim C5, amended. With a reward that is a number, the bookkeeping of \<^verbatim>\<open>learn\<close>
  raises only by the division of a 100-round boundary outside money-time with a zero
  sample count. The exception is caught and logged with the tag \<^verbatim>\<open>EXCEPTION\<close>, after
  the message "Something Went Wrong...", and the reward sum, the loss sum and the sample
  count are left by the bookkeeping as they were: the reward sum is not reset, and it is
  the same at the end of the call. The call goes on to the training step: it computes the
  TD target of the sampled rows, and its weights, loss sum, sample count, buffer and
  printed exceptions are those that the training step leaves.
\<close>

theorem window_exception:
  assumes "window_stats c env r rew s = Inl e"
  shows "e = ZeroDivisionError \<and> r mod 100 = 0 \<and> r \<le> game_duration c - score_scope c \<and>
         num_of_samples s = 0 \<and>
         log_window c env r rew s =
           s\<lparr>logged := logged s @ [(SomethingWentWrong, EXCEPTION), (Raised e, EXCEPTION)]\<rparr> \<and>
         r_sum (log_window c env r rew s) = r_sum s \<and>
         sum_of_loss (log_window c env r rew s) = sum_of_loss s \<and>
         num_of_samples (log_window c env r rew s) = num_of_samples s \<and>
         (learn c env r rew rnd s = Inr s' \<longrightarrow>
            r_sum s' = r_sum s \<and>
            logged s' = logged s @ [(SomethingWentWrong, EXCEPTION), (Raised e, EXCEPTION)] \<and>
            (\<exists>target.
               td_target c env (log_window c env r rew s)
                 (mem_sample env (memory s) (batch_size c) 0.6 rnd) = Inr target \<and>
               model s' = model (train env (mem_sample env (memory s) (batch_size c) 0.6 rnd)
                                  target (log_window c env r rew s)) \<and>
               sum_of_loss s' =
                 sum_of_loss (train env (mem_sample env (memory s) (batch_size c) 0.6 rnd)
                                target (log_window c env r rew s)) \<and>
               num_of_samples s' =
                 num_of_samples (train env (mem_sample env (memory s) (batch_size c) 0.6 rnd)
                                   target (log_window c env r rew s)) \<and>
               memory s' = memory (train env (mem_sample env (memory s) (batch_size c) 0.6 rnd)
                                     target (log_window c env r rew s)) \<and>
               printed s' = printed (train env (mem_sample env (memory s) (batch_size c) 0.6 rnd)
                                       target (log_window c env r rew s))))"
proof -
  from assms have e: "e = ZeroDivisionError" "r mod 100 = 0"
    "r \<le> game_duration c - score_scope c" "num_of_samples s = 0"
    by (simp_all add: window_stats_raises)
  from assms have lw: "log_window c env r rew s =
      s\<lparr>logged := logged s @ [(SomethingWentWrong, EXCEPTION), (Raised e, EXCEPTION)]\<rparr>"
    by (simp add: log_window_def emit_def)
  have st: "r_sum (log_window c env r rew s) = r_sum s"
    "sum_of_loss (log_window c env r rew s) = sum_of_loss s"
    "num_of_samples (log_window c env r rew s) = num_of_samples s"
    by (simp_all add: lw)
  have lg: "r_sum s' = r_sum s \<and>
      logged s' = logged s @ [(SomethingWentWrong, EXCEPTION), (Raised e, EXCEPTION)]"
    if "learn c env r rew rnd s = Inr s'"
    using learn_statistics[OF that] by (simp add: lw)
  from e lw st lg learn_after_train[of c env r rew rnd s s'] show ?thesis by blast
qed

text \<open>
  In the concrete instance with a \<^verbatim>\<open>fit\<close> that always raises, after the \<^verbatim>\<open>learn\<close>
  call of round 1 with reward 7: the \<^verbatim>\<open>learn\<close> call of round 100 leaves the reward
  sum at 7 and its training step prints the exception of \<^verbatim>\<open>fit\<close>. In the concrete
  instance after some training, with a reward sum of 7: the \<^verbatim>\<open>learn\<close> call of round
  100 leaves the reward sum at 7 and trains, on the one row of the buffer.
\<close>

theorem window_exception_witness:
  "\<exists>s s' t'.
     run demo_hyper demo_env_failing_fit [Learn 1 7 0] demo_policy = Inr s \<and> r_sum s = 7 \<and>
     window_stats demo_hyper demo_env_failing_fit 100 1 s = Inl ZeroDivisionError \<and>
     learn demo_hyper demo_env_failing_fit 100 1 0 s = Inr s' \<and>
     r_sum s' = 7 \<and>
     logged s' = logged s @
       [(SomethingWentWrong, EXCEPTION), (Raised ZeroDivisionError, EXCEPTION)] \<and>
     printed s' = printed s @ [ExternalError] \<and>
     window_stats demo_hyper demo_env 100 1 (demo_trained\<lparr>r_sum := 7\<rparr>)
       = Inl ZeroDivisionError \<and>
     learn demo_hyper demo_env 100 1 0 (demo_trained\<lparr>r_sum := 7\<rparr>) = Inr t' \<and>
     r_sum t' = 7 \<and> model t' = 6 \<and> num_of_samples t' = 1 \<and> sum_of_loss t' = 1 / 2"
proof -
  have "\<exists>s. run demo_hyper demo_env_failing_fit [Learn 1 7 0] demo_policy = Inr s \<and>
      s = demo_policy\<lparr>r_sum := 7, printed := [ExternalError]\<rparr>"
    by (simp add: demo_env_failing_fit_def demo_defs code_defs)
  then obtain s where r: "run demo_hyper demo_env_failing_fit [Learn 1 7 0] demo_policy = Inr s"
    and sv: "s = demo_policy\<lparr>r_sum := 7, printed := [ExternalError]\<rparr>" by blast
  have r7: "r_sum s = 7" by (simp add: sv)
  have w: "window_stats demo_hyper demo_env_failing_fit 100 1 s = Inl ZeroDivisionError"
    by (simp add: sv demo_env_failing_fit_def demo_defs code_defs)
  have "\<exists>s'. learn demo_hyper demo_env_failing_fit 100 1 0 s = Inr s'"
    by (simp add: sv demo_env_failing_fit_def demo_defs code_defs)
  then obtain s' where l: "learn demo_hyper demo_env_failing_fit 100 1 0 s = Inr s'" by blast
  from window_exception[OF w, of 0 s'] l obtain target
    where a: "r_sum s' = r_sum s"
      "logged s' = logged s @
         [(SomethingWentWrong, EXCEPTION), (Raised ZeroDivisionError, EXCEPTION)]"
      and p: "printed s' = printed (train demo_env_failing_fit
          (mem_sample demo_env_failing_fit (memory s) (batch_size demo_hyper) 0.6 0) target
          (log_window demo_hyper demo_env_failing_fit 100 1 s))"
    by blast
  from p have p': "printed s' = printed s @ [ExternalError]"
    by (simp add: sv demo_env_failing_fit_def demo_defs code_defs)
  define t where "t = demo_trained\<lparr>r_sum := 7\<rparr>"
  have w2: "window_stats demo_hyper demo_env 100 1 t = Inl ZeroDivisionError"
    by (simp add: t_def demo_trained_def demo_defs code_defs)
  have "\<exists>t'. learn demo_hyper demo_env 100 1 0 t = Inr t'"
    by (simp add: t_def demo_trained_def demo_defs code_defs)
  then obtain t' where l2: "learn demo_hyper demo_env 100 1 0 t = Inr t'" by blast
  from window_exception[OF w2, of 0 t'] l2 obtain target2
    where b: "r_sum t' = r_sum t"
      and tt: "td_target demo_hyper demo_env (log_window demo_hyper demo_env 100 1 t)
          (mem_sample demo_env (memory t) (batch_size demo_hyper) 0.6 0) = Inr target2"
      and m: "model t' = model (train demo_env
          (mem_sample demo_env (memory t) (batch_size demo_hyper) 0.6 0) target2
          (log_window demo_hyper demo_env 100 1 t))"
        "sum_of_loss t' = sum_of_loss (train demo_env
          (mem_sample demo_env (memory t) (batch_size demo_hyper) 0.6 0) target2
          (log_window demo_hyper demo_env 100 1 t))"
        "num_of_samples t' = num_of_samples (train demo_env
          (mem_sample demo_env (memory t) (batch_size demo_hyper) 0.6 0) target2
          (log_window demo_hyper demo_env 100 1 t))"
    by blast
  from b have b': "r_sum t' = 7" by (simp add: t_def)
  from tt have tv: "target2 = [5 / 2]"
    by (simp add: t_def demo_trained_def demo_defs code_defs)
  from m have m': "model t' = 6" "sum_of_loss t' = 1 / 2" "num_of_samples t' = 1"
    by (simp_all add: tv t_def demo_trained_def demo_defs code_defs)
  from a r7 have a': "r_sum s' = 7" by simp
  show ?thesis
    using r r7 w l a' a(2) p' w2 l2 b' m' unfolding t_def by blast
qed

end
